theory Spec2Isabelle
  imports Complex_Main "HOL-Library.Sublist" "HOL-Library.AList"
begin

section \<open>JavaScript values\<close>

text \<open>
  A JavaScript string is modelled as a \<open>string\<close>: a list of 8-bit characters, read as the
  code units U+0000 to U+00FF. Numbers are modelled as exact reals: every comparison and
  division of the verifier is taken without rounding.
\<close>

text \<open>\<open>String.prototype.includes\<close>: containment of a contiguous substring.\<close>

fun str_includes :: "string \<Rightarrow> string \<Rightarrow> bool" where
  "str_includes [] sub = (sub = [])"
| "str_includes (c # cs) sub = (prefix sub (c # cs) \<or> str_includes cs sub)"

text \<open>A JavaScript number that may also be \<open>NaN\<close> or an infinity.\<close>

datatype js_float = NaN | Finite real | PosInfinity | NegInfinity

text \<open>
  Values decoded by \<open>JSON.parse\<close>. A property that is absent (\<open>undefined\<close>) is \<open>None\<close>
  wherever a property is read.
\<close>

datatype json =
    JNull
  | JBool bool
  | JNum real
  | JStr string
  | JArr "json list"
  | JObj "(string \<times> json) list"

text \<open>The truth value JavaScript gives a JSON value.\<close>

fun truthy :: "json \<Rightarrow> bool" where
  "truthy JNull = False"
| "truthy (JBool b) = b"
| "truthy (JNum x) = (x \<noteq> 0)"
| "truthy (JStr s) = (s \<noteq> [])"
| "truthy (JArr xs) = True"
| "truthy (JObj kvs) = True"

definition truthy_opt :: "json option \<Rightarrow> bool" where
  "truthy_opt v = (case v of None \<Rightarrow> False | Some j \<Rightarrow> truthy j)"

text \<open>
  Converting a value to a primitive, as \<open>String(v)\<close>, a template literal and the
  comparisons \<open>v <= 0\<close>, \<open>v >= 1\<close> do, calls the \<open>toString\<close> method of an object. An object
  decoded from JSON inherits a callable one from \<open>Object.prototype\<close> unless it has a key
  \<open>toString\<close> of its own: the value of that key is no function, the inherited \<open>valueOf\<close>
  returns the object itself, and the conversion throws a \<open>TypeError\<close>. An array is joined
  from the conversions of its elements (\<open>null\<close> gives the empty string), so it throws when
  one of them does. \<open>coercion_throws v\<close> says that the conversion of \<open>v\<close> throws.
\<close>

fun coercion_throws :: "json \<Rightarrow> bool" where
  "coercion_throws (JObj kvs) = (''toString'' \<in> fst ` set kvs)"
| "coercion_throws (JArr xs) = (\<exists>x\<in>set xs. coercion_throws x)"
| "coercion_throws JNull = False"
| "coercion_throws (JBool b) = False"
| "coercion_throws (JNum x) = False"
| "coercion_throws (JStr s) = False"

text \<open>
  What a property of a result object holds: nothing (\<open>undefined\<close>), a JSON value, or the
  string built by a template literal from a fixed text and a value whose conversion the
  model does not evaluate (\<open>Template p v\<close> is \<open>p\<close> followed by \<open>String(v)\<close>, for a number
  or an array \<open>v\<close> whose conversion does not throw).
\<close>

datatype js_value = Undefined | Val json | Template string json

definition of_optional :: "json option \<Rightarrow> js_value" where
  "of_optional v = (case v of None \<Rightarrow> Undefined | Some j \<Rightarrow> Val j)"

section \<open>Score normalisation (utils.ts)\<close>

text \<open>
  \<^verbatim>\<open>
  export function normalizeScore(score: number): number {
    if (score <= 0) return 0;
    if (score >= 1) return 1;
    if (score > 100) return score / 100; // Handle percentage
    if (score > 10) return score / 10; // Handle 0-10 scale
    if (score > 5) return score / 5; // Handle 0-5 scale
    return score;
  }
  \<close>
\<close>

definition normalizeScore :: "real \<Rightarrow> real" where
  "normalizeScore score =
     (if score \<le> 0 then 0
      else if score \<ge> 1 then 1
      else if score > 100 then score / 100
      else if score > 10 then score / 10
      else if score > 5 then score / 5
      else score)"

section \<open>Thrown values and retry classification (utils.ts)\<close>

text \<open>
  A \<open>catch\<close> clause receives whatever was thrown (\<open>error: any\<close>). The verifier reads four
  properties of it: \<open>constructor.name\<close>, \<open>code\<close>, \<open>status\<close> and \<open>message\<close>. The thrown
  value is \<open>undefined\<close>, \<open>null\<close>, or a value of which properties can be read; the latter is
  modelled by the four properties, each absent (\<open>None\<close>) or present. \<open>code\<close>, \<open>status\<close> and
  \<open>message\<close> hold any JSON-like value; \<open>e_constructor\<close> is the name of the constructor, and
  \<open>None\<close> stands for a value without constructor (an object with a null prototype), on
  which reading \<open>constructor.name\<close> throws. A thrown primitive (a string, a number, a
  boolean) has none of \<open>code\<close>, \<open>status\<close>, \<open>message\<close>, and \<open>isRetryableError\<close> returns the
  same for it, falsy or not, as for an object without these properties.
\<close>

record error_object =
  e_constructor :: "string option"
  e_code :: "json option"
  e_status :: "json option"
  e_message :: "json option"

datatype thrown = ThrownUndefined | ThrownNull | Thrown error_object

text \<open>
  The \<open>TypeError\<close> the engine throws, with its message (given in the wording of V8).
\<close>

definition type_error :: "string \<Rightarrow> thrown" where
  "type_error m =
     Thrown \<lparr>e_constructor = Some ''TypeError'', e_code = None, e_status = None,
             e_message = Some (JStr m)\<rparr>"

definition networkErrors :: "string list" where
  "networkErrors =
     [''ECONNRESET'', ''ETIMEDOUT'', ''ECONNREFUSED'',
      ''ENOTFOUND'', ''EAI_AGAIN'', ''NETWORK_ERROR'']"

definition retryableStatuses :: "real list" where
  "retryableStatuses = [408, 429, 500, 502, 503, 504]"

text \<open>
  \<open>networkErrors.includes(error.code)\<close>: strict equality with one of the strings, so an
  absent code and a code that is no string are no members.
\<close>

definition has_network_code :: "error_object \<Rightarrow> bool" where
  "has_network_code e =
     (case e_code e of Some (JStr c) \<Rightarrow> c \<in> set networkErrors | _ \<Rightarrow> False)"

text \<open>\<open>if (error.status)\<close>: the status is present and truthy.\<close>

definition has_status :: "error_object \<Rightarrow> bool" where
  "has_status e = truthy_opt (e_status e)"

text \<open>\<open>retryableStatuses.includes(error.status)\<close>: strict equality with one of the numbers.\<close>

definition status_retryable :: "error_object \<Rightarrow> bool" where
  "status_retryable e =
     (case e_status e of Some (JNum s) \<Rightarrow> s \<in> set retryableStatuses | _ \<Rightarrow> False)"

text \<open>
  One test \<open>error.message?.includes(p)\<close>. The optional chain gives \<open>undefined\<close> (falsy)
  for a message that is absent or \<open>null\<close>. A string has \<open>String.prototype.includes\<close>, an
  array has \<open>Array.prototype.includes\<close> (membership of the phrase). A number, a boolean and
  an object decoded from JSON have no callable \<open>includes\<close>, and the call throws a
  \<open>TypeError\<close>.
\<close>

definition message_includes :: "json option \<Rightarrow> string \<Rightarrow> thrown + bool" where
  "message_includes m p =
     (case m of
        None \<Rightarrow> Inr False
      | Some JNull \<Rightarrow> Inr False
      | Some (JStr s) \<Rightarrow> Inr (str_includes s p)
      | Some (JArr xs) \<Rightarrow> Inr (JStr p \<in> set xs)
      | Some _ \<Rightarrow> Inl (type_error ''error.message?.includes is not a function''))"

text \<open>
  The chain \<open>error.message?.includes(p1) || error.message?.includes(p2) || ...\<close>: the tests
  are made from the left until one is true.
\<close>

fun message_includes_any :: "json option \<Rightarrow> string list \<Rightarrow> thrown + bool" where
  "message_includes_any m [] = Inr False"
| "message_includes_any m (p # ps) =
     (case message_includes m p of
        Inl t \<Rightarrow> Inl t
      | Inr found \<Rightarrow> if found then Inr True else message_includes_any m ps)"

text \<open>
  \<open>isRetryableError(error)\<close>: \<open>if (!error) return false\<close> answers for \<open>undefined\<close> and
  \<open>null\<close>; the result is the boolean returned or the \<open>TypeError\<close> thrown.
\<close>

definition isRetryableError :: "thrown \<Rightarrow> thrown + bool" where
  "isRetryableError error =
     (case error of
        ThrownUndefined \<Rightarrow> Inr False
      | ThrownNull \<Rightarrow> Inr False
      | Thrown e \<Rightarrow>
          if has_network_code e then Inr True
          else if has_status e then Inr (status_retryable e)
          else
            (case message_includes_any (e_message e)
                    [''rate limit'', ''too many requests'', ''quota exceeded''] of
               Inl t \<Rightarrow> Inl t
             | Inr rate_limited \<Rightarrow>
                 if rate_limited then Inr True
                 else
                   (case message_includes_any (e_message e) [''timeout'', ''timed out''] of
                      Inl t \<Rightarrow> Inl t
                    | Inr timed_out \<Rightarrow> if timed_out then Inr True else Inr False)))"

section \<open>The verifier's data (types.ts)\<close>

text \<open>
  \<open>CategoryResult\<close>. The score and the explanation are declared \<open>number\<close> and \<open>string\<close>;
  at run time \<open>validateCategories\<close> computes them from untyped JSON. For a score that is a
  number and an explanation that is a string the model gives the value. For another JSON
  value whose conversion does not throw it records the value the conversion starts from
  and does not evaluate the conversion (\<open>NormalizedNonNumber\<close>: \<open>normalizeScore\<close> applied
  to a value that is no number; \<open>StringOf\<close>: \<open>String(v)\<close> of a value that is no string).
\<close>

datatype score_value = Score real | NormalizedNonNumber json

datatype text_value = Text string | StringOf json

record CategoryResult =
  passed :: bool
  score :: score_value
  explanation :: text_value
  details :: "json list option"

text \<open>\<open>VerificationMetrics\<close>, without the wall-clock \<open>timestamp\<close>.\<close>

record VerificationMetrics =
  latency :: nat
  inputTokens :: nat
  outputTokens :: nat
  totalTokens :: nat
  cost :: real
  m_model :: string
  m_provider :: string

text \<open>The \<open>metadata\<close> of an error result, without its \<open>timestamp\<close>.\<close>

record error_metadata =
  errorType :: string
  errorCode :: js_value
  retryable :: bool

text \<open>
  \<open>VerificationResult\<close>. \<open>reason\<close>, \<open>issues\<close>, \<open>suggestions\<close> and \<open>error\<close> are declared
  \<open>string\<close> and \<open>string[]\<close>, but the structured path stores whatever JSON the model
  returned there and the error path whatever \<open>message\<close> the thrown value had, so they hold
  any value here. \<open>categories\<close> is the object's properties in insertion order.
\<close>

record VerificationResult =
  isValid :: bool
  confidence :: real
  reason :: js_value
  issues :: "js_value list"
  suggestions :: "js_value list"
  categories :: "(string \<times> CategoryResult) list"
  metrics :: VerificationMetrics
  res_provider :: "string option"
  res_model :: "string option"
  res_error :: js_value
  metadata :: "error_metadata option"

text \<open>
  \<open>LLMResponse\<close>, the object a provider call resolved with: \<open>choices_content\<close> is
  \<open>choices?.[0]?.message?.content\<close>. The token counts of \<open>usage\<close> are only read under
  \<open>||\<close>, where an absent count and \<open>0\<close> behave alike.
\<close>

record usage =
  prompt_tokens :: nat
  completion_tokens :: nat
  total_tokens :: nat

record LLMResponse =
  output_text :: "string option"
  choices_content :: "string option"
  resp_usage :: "usage option"
  resp_model :: "string option"

record ProviderConfig =
  cfg_name :: string
  apiKey :: "string option"
  baseURL :: string
  models :: "(string \<times> string) list"
  endpoints :: "(string \<times> string) list"
  costInput :: real
  costOutput :: real

text \<open>
  The fields of \<open>VerificationOptions\<close> that the verifier reads itself; temperature, token
  limit, type and context only travel to the provider request, the prompt and the monitoring
  calls. \<open>batchSize\<close> is declared \<open>number\<close> and used unvalidated, so it is any JavaScript
  number; \<open>batchIndex\<close> is computed from it.
\<close>

record VerificationOptions =
  o_model :: "string option"
  batchSize :: "js_float option"
  batchIndex :: "js_float option"
  batchTotal :: "nat option"

text \<open>
  The state of a constructed \<open>LLMVerifier\<close> that \<open>verify\<close> and \<open>verifyBatch\<close> read for their
  result. \<open>maxRetries\<close> is the number the constructor stored.
\<close>

record verifier =
  providerConfig :: ProviderConfig
  defaultModel :: string
  maxRetries :: int

text \<open>\<open>a || b\<close> on an optional string: the first operand unless it is absent or empty.\<close>

definition or_str :: "string option \<Rightarrow> string \<Rightarrow> string" where
  "or_str a b = (case a of None \<Rightarrow> b | Some s \<Rightarrow> if s = [] then b else s)"

section \<open>Construction (LLMVerifier.ts)\<close>

text \<open>
  \<open>configs[providerName]\<close> reads a property of an object literal, so besides the three own
  properties it finds the members every object inherits from \<open>Object.prototype\<close>. Those are
  functions (truthy), whose \<open>name\<close> is listed here; \<open>__proto__\<close> is the prototype object
  itself, which has no \<open>name\<close>.
\<close>

definition object_prototype_members :: "(string \<times> string option) list" where
  "object_prototype_members =
     [(''constructor'', Some ''Object''),
      (''__defineGetter__'', Some ''__defineGetter__''),
      (''__defineSetter__'', Some ''__defineSetter__''),
      (''hasOwnProperty'', Some ''hasOwnProperty''),
      (''__lookupGetter__'', Some ''__lookupGetter__''),
      (''__lookupSetter__'', Some ''__lookupSetter__''),
      (''isPrototypeOf'', Some ''isPrototypeOf''),
      (''propertyIsEnumerable'', Some ''propertyIsEnumerable''),
      (''toString'', Some ''toString''),
      (''valueOf'', Some ''valueOf''),
      (''__proto__'', None),
      (''toLocaleString'', Some ''toLocaleString'')]"

datatype config_value = Config ProviderConfig | Inherited "string option"

definition configs :: "(string \<rightharpoonup> string) \<Rightarrow> (string \<times> ProviderConfig) list" where
  "configs env =
     [(''openai'',
        \<lparr>cfg_name = ''openai'', apiKey = env ''OPENAI_API_KEY'',
         baseURL = or_str (env ''OPENAI_BASE_URL'') ''https://api.openai.com/v1'',
         models = [(''default'', ''gpt-4o-mini''), (''fast'', ''gpt-4o-mini''),
                   (''accurate'', ''gpt-4o''), (''cheap'', ''gpt-3.5-turbo'')],
         endpoints = [(''completions'', ''/completions''), (''chat'', ''/chat/completions'')],
         costInput = 0.0005, costOutput = 0.0015\<rparr>),
      (''gemini'',
        \<lparr>cfg_name = ''gemini'', apiKey = env ''GEMINI_API_KEY'',
         baseURL = or_str (env ''GEMINI_BASE_URL'')
           ''https://generativelanguage.googleapis.com/v1'',
         models = [(''default'', ''gemini-1.5-pro''), (''fast'', ''gemini-1.5-flash''),
                   (''accurate'', ''gemini-1.5-pro'')],
         endpoints = [(''generate'', ''/models/{model}:generateContent'')],
         costInput = 0.000125, costOutput = 0.000375\<rparr>),
      (''anthropic'',
        \<lparr>cfg_name = ''anthropic'', apiKey = env ''ANTHROPIC_API_KEY'',
         baseURL = or_str (env ''ANTHROPIC_BASE_URL'') ''https://api.anthropic.com/v1'',
         models = [(''default'', ''claude-3-haiku''), (''fast'', ''claude-3-haiku''),
                   (''accurate'', ''claude-3-opus'')],
         endpoints = [(''messages'', ''/messages'')],
         costInput = 0.00025, costOutput = 0.00125\<rparr>)]"

text \<open>
  \<open>initializeProvider(env, provider)\<close>: \<open>return configs[providerName] || configs.openai\<close>.
\<close>

definition openai_config :: "(string \<rightharpoonup> string) \<Rightarrow> ProviderConfig" where
  "openai_config env = snd (hd (configs env))"

definition initializeProvider :: "(string \<rightharpoonup> string) \<Rightarrow> string option \<Rightarrow> config_value" where
  "initializeProvider env provider =
     (let providerName = or_str provider (or_str (env ''AI_PROVIDER'') ''openai'')
      in case map_of (configs env) providerName of
           Some c \<Rightarrow> Config c
         | None \<Rightarrow>
             (case map_of object_prototype_members providerName of
                Some member_name \<Rightarrow> Inherited member_name
              | None \<Rightarrow> Config (openai_config env)))"

text \<open>
  The SDK clients \<open>initializeClient\<close> asks for, with the arguments it passes: a value of
  \<open>client\<close> is a \<open>new\<close> expression of the method.
\<close>

datatype client =
    OpenAI "string option" string
  | GoogleGenerativeAI "string option"
  | Anthropic "string option" string


text \<open>
  \<open>LLMVerifier.ts\<close> imports none of the three classes; each \<open>new\<close> stands under
  \<open>// @ts-ignore\<close>. What evaluating \<open>new OpenAI(..)\<close> does is therefore decided outside
  the file, by the scope the module runs in: \<open>sdk c = None\<close> says that the expression \<open>c\<close>
  returns its client, \<open>sdk c = Some t\<close> that it throws \<open>t\<close>. In the scope \<open>unbound\<close> no
  class is bound, and every \<open>new\<close> throws a \<open>ReferenceError\<close>.
\<close>

type_synonym sdk = "client \<Rightarrow> thrown option"



definition new_client :: "sdk \<Rightarrow> client \<Rightarrow> thrown + client" where
  "new_client sdk c = (case sdk c of Some t \<Rightarrow> Inl t | None \<Rightarrow> Inr c)"

definition unsupported_provider :: "string \<Rightarrow> thrown" where
  "unsupported_provider name =
     Thrown \<lparr>e_constructor = Some ''Error'', e_code = None, e_status = None,
             e_message = Some (JStr (''Unsupported provider: '' @ name))\<rparr>"

text \<open>
  \<open>initializeClient()\<close>: the \<open>switch\<close> on \<open>this.providerConfig.name\<close>, whose default branch
  throws \<open>new Error(`Unsupported provider: ${name}`)\<close>. An absent name prints as
  \<open>undefined\<close>.
\<close>

definition initializeClient :: "sdk \<Rightarrow> config_value \<Rightarrow> thrown + client" where
  "initializeClient sdk cv =
     (case cv of
        Config c \<Rightarrow>
          if cfg_name c = ''openai'' then new_client sdk (OpenAI (apiKey c) (baseURL c))
          else if cfg_name c = ''gemini'' then new_client sdk (GoogleGenerativeAI (apiKey c))
          else if cfg_name c = ''anthropic'' then new_client sdk (Anthropic (apiKey c) (baseURL c))
          else Inl (unsupported_provider (cfg_name c))
      | Inherited member_name \<Rightarrow>
          Inl (unsupported_provider (case member_name of None \<Rightarrow> ''undefined'' | Some n \<Rightarrow> n)))"

text \<open>
  The part of the constructor that can throw: \<open>this.providerConfig = initializeProvider(..)\<close>
  followed by \<open>this.client = initializeClient()\<close>. The other fields are filled by
  \<open>||\<close>, \<open>??\<close>, \<open>parseInt\<close> and \<open>parseFloat\<close>, which never throw.
\<close>

definition construct ::
  "sdk \<Rightarrow> (string \<rightharpoonup> string) \<Rightarrow> string option \<Rightarrow> thrown + config_value \<times> client" where
  "construct sdk env provider =
     (let cv = initializeProvider env provider
      in case initializeClient sdk cv of Inl e \<Rightarrow> Inl e | Inr c \<Rightarrow> Inr (cv, c))"

section \<open>Text helpers (utils.ts)\<close>

definition is_digit :: "char \<Rightarrow> bool" where
  "is_digit c = (c \<in> set ''0123456789'')"

definition digit_value :: "char \<Rightarrow> nat" where
  "digit_value c = of_char c - 48"

definition digits_value :: "string \<Rightarrow> nat" where
  "digits_value ds = foldl (\<lambda>a c. 10 * a + digit_value c) 0 ds"

text \<open>
  The characters \<open>\s\<close>, \<open>trim\<close> and \<open>parseFloat\<close> treat as white space, among the code
  units up to U+00FF: tab, line feed, vertical tab, form feed, carriage return, space and
  the no-break space.
\<close>

definition is_js_space :: "char \<Rightarrow> bool" where
  "is_js_space c = (c \<in> {CHR 0x09, CHR 0x0A, CHR 0x0B, CHR 0x0C, CHR 0x0D, CHR 0x20, CHR 0xA0})"

text \<open>The line terminators, which the regular expression \<open>.\<close> does not match.\<close>

definition is_line_terminator :: "char \<Rightarrow> bool" where
  "is_line_terminator c = (c = CHR 0x0A \<or> c = CHR 0x0D)"

definition upper_chars :: string where
  "upper_chars = ''ABCDEFGHIJKLMNOPQRSTUVWXYZ'' @
     [CHR 0xC0, CHR 0xC1, CHR 0xC2, CHR 0xC3, CHR 0xC4, CHR 0xC5, CHR 0xC6, CHR 0xC7,
      CHR 0xC8, CHR 0xC9, CHR 0xCA, CHR 0xCB, CHR 0xCC, CHR 0xCD, CHR 0xCE, CHR 0xCF,
      CHR 0xD0, CHR 0xD1, CHR 0xD2, CHR 0xD3, CHR 0xD4, CHR 0xD5, CHR 0xD6,
      CHR 0xD8, CHR 0xD9, CHR 0xDA, CHR 0xDB, CHR 0xDC, CHR 0xDD, CHR 0xDE]"

definition lower_chars :: string where
  "lower_chars = ''abcdefghijklmnopqrstuvwxyz'' @
     [CHR 0xE0, CHR 0xE1, CHR 0xE2, CHR 0xE3, CHR 0xE4, CHR 0xE5, CHR 0xE6, CHR 0xE7,
      CHR 0xE8, CHR 0xE9, CHR 0xEA, CHR 0xEB, CHR 0xEC, CHR 0xED, CHR 0xEE, CHR 0xEF,
      CHR 0xF0, CHR 0xF1, CHR 0xF2, CHR 0xF3, CHR 0xF4, CHR 0xF5, CHR 0xF6,
      CHR 0xF8, CHR 0xF9, CHR 0xFA, CHR 0xFB, CHR 0xFC, CHR 0xFD, CHR 0xFE]"

definition lower_char :: "char \<Rightarrow> char" where
  "lower_char c = (case map_of (zip upper_chars lower_chars) c of None \<Rightarrow> c | Some l \<Rightarrow> l)"

text \<open>\<open>String.prototype.toLowerCase\<close>.\<close>

definition toLowerCase :: "string \<Rightarrow> string" where
  "toLowerCase s = map lower_char s"

text \<open>
  A literal of lower-case ASCII letters matched under the flag \<open>i\<close> at the start of \<open>s\<close>.
\<close>

definition ci_prefix :: "string \<Rightarrow> string \<Rightarrow> bool" where
  "ci_prefix lit s = (toLowerCase (take (length lit) s) = lit)"

text \<open>\<open>String.prototype.trim\<close>.\<close>

definition trim :: "string \<Rightarrow> string" where
  "trim s = rev (dropWhile is_js_space (rev (dropWhile is_js_space s)))"


text \<open>The exponent part \<open>e[+-]?digits\<close> at the start of \<open>s\<close>, or \<open>0\<close> when there is none.\<close>

definition exponent_part :: "string \<Rightarrow> int" where
  "exponent_part s =
     (case s of
        [] \<Rightarrow> 0
      | e # r \<Rightarrow>
          if e = CHR ''e'' \<or> e = CHR ''E'' then
            (let neg = (case r of [] \<Rightarrow> False | g # _ \<Rightarrow> g = CHR ''-'');
                 signed = (case r of [] \<Rightarrow> False | g # _ \<Rightarrow> g = CHR ''-'' \<or> g = CHR ''+'');
                 ds = takeWhile is_digit (if signed then tl r else r)
             in if ds = [] then 0
                else if neg then - int (digits_value ds) else int (digits_value ds))
          else 0)"

definition scale10 :: "real \<Rightarrow> int \<Rightarrow> real" where
  "scale10 x k = (if k \<ge> 0 then x * 10 ^ nat k else x / 10 ^ nat (- k))"

text \<open>
  \<open>parseFloat(s)\<close>: leading white space is skipped, then the longest prefix that is a
  decimal literal (sign, \<open>Infinity\<close>, or digits with an optional fraction and exponent) is
  read; \<open>NaN\<close> when there is none.
\<close>

definition parseFloat :: "string \<Rightarrow> js_float" where
  "parseFloat s =
     (let s0 = dropWhile is_js_space s;
          neg = (case s0 of [] \<Rightarrow> False | g # _ \<Rightarrow> g = CHR ''-'');
          signed = (case s0 of [] \<Rightarrow> False | g # _ \<Rightarrow> g = CHR ''-'' \<or> g = CHR ''+'');
          s1 = (if signed then tl s0 else s0)
      in if prefix ''Infinity'' s1 then (if neg then NegInfinity else PosInfinity)
         else
           (let ip = takeWhile is_digit s1;
                r1 = dropWhile is_digit s1;
                dotted = (case r1 of [] \<Rightarrow> False | d # _ \<Rightarrow> d = CHR ''.'');
                fp = (if dotted then takeWhile is_digit (tl r1) else []);
                r2 = (if dotted then dropWhile is_digit (tl r1) else r1);
                m = real (digits_value ip) + real (digits_value fp) / 10 ^ length fp
            in if ip = [] \<and> fp = [] then NaN
               else Finite (scale10 (if neg then - m else m) (exponent_part r2))))"

section \<open>A reference model of \<open>JSON.parse\<close>\<close>

text \<open>
  \<open>JSON.parse\<close> belongs to the language, not to the repository. The verifier's functions
  below take it as a parameter \<open>JSON_parse\<close>, where \<open>None\<close> stands for the \<open>SyntaxError\<close> it
  throws, and every general property is proved for an arbitrary such function. For running
  the verifier on a concrete text, \<open>JSON_parse_ref\<close> follows the JSON grammar (ECMA-404)
  over the code units up to U+00FF; it rejects an escape above \<open>\u00ff\<close>, which names a code
  unit outside that alphabet. When an object repeats a key the last value wins.
\<close>

definition is_json_ws :: "char \<Rightarrow> bool" where
  "is_json_ws c = (c \<in> {CHR 0x20, CHR 0x09, CHR 0x0A, CHR 0x0D})"

definition hex_value :: "char \<Rightarrow> nat option" where
  "hex_value c =
     map_of (zip ''0123456789abcdefABCDEF''
       [0, 1, 2, 3, 4, 5, 6, 7, 8, 9, 10, 11, 12, 13, 14, 15, 10, 11, 12, 13, 14, 15]) c"

definition hex4 :: "char \<Rightarrow> char \<Rightarrow> char \<Rightarrow> char \<Rightarrow> nat option" where
  "hex4 a b c d =
     (case (hex_value a, hex_value b, hex_value c, hex_value d) of
        (Some h3, Some h2, Some h1, Some h0) \<Rightarrow> Some (((h3 * 16 + h2) * 16 + h1) * 16 + h0)
      | _ \<Rightarrow> None)"

definition unescape :: "char \<Rightarrow> char option" where
  "unescape c =
     map_of [(CHR 0x22, CHR 0x22), (CHR 0x5C, CHR 0x5C), (CHR ''/'', CHR ''/''),
             (CHR ''b'', CHR 0x08), (CHR ''f'', CHR 0x0C), (CHR ''n'', CHR 0x0A),
             (CHR ''r'', CHR 0x0D), (CHR ''t'', CHR 0x09)] c"

text \<open>The characters of a string after its opening quote, up to the closing quote.\<close>

fun json_string_body :: "string \<Rightarrow> string \<Rightarrow> (string \<times> string) option" where
  "json_string_body acc [] = None"
| "json_string_body acc (c # cs) =
     (if c = CHR 0x22 then Some (rev acc, cs)
      else if c = CHR 0x5C then
        (case cs of
           [] \<Rightarrow> None
         | e # cs1 \<Rightarrow>
             if e = CHR ''u'' then
               (case cs1 of
                  h3 # h2 # h1 # h0 # cs2 \<Rightarrow>
                    (case hex4 h3 h2 h1 h0 of
                       None \<Rightarrow> None
                     | Some n \<Rightarrow>
                         if n < 256 then json_string_body (char_of n # acc) cs2 else None)
                | _ \<Rightarrow> None)
             else
               (case unescape e of
                  None \<Rightarrow> None
                | Some u \<Rightarrow> json_string_body (u # acc) cs1))
      else if (of_char c :: nat) < 32 then None
      else json_string_body (c # acc) cs)"

text \<open>A number: \<open>-? (0 | [1-9][0-9]*) (. [0-9]+)? ([eE] [+-]? [0-9]+)?\<close>.\<close>

definition json_number :: "string \<Rightarrow> (real \<times> string) option" where
  "json_number s =
     (let neg = (case s of [] \<Rightarrow> False | g # _ \<Rightarrow> g = CHR ''-'');
          s1 = (if neg then tl s else s);
          ip = (case s1 of [] \<Rightarrow> [] | d # _ \<Rightarrow> if d = CHR ''0'' then [d] else takeWhile is_digit s1);
          r1 = drop (length ip) s1;
          dotted = (case r1 of [] \<Rightarrow> False | d # _ \<Rightarrow> d = CHR ''.'');
          fp = (if dotted then takeWhile is_digit (tl r1) else []);
          r2 = (if dotted then dropWhile is_digit (tl r1) else r1);
          expo = (case r2 of [] \<Rightarrow> False | e # _ \<Rightarrow> e = CHR ''e'' \<or> e = CHR ''E'');
          r3 = (if expo then tl r2 else r2);
          signed = (case r3 of [] \<Rightarrow> False | g # _ \<Rightarrow> expo \<and> (g = CHR ''-'' \<or> g = CHR ''+''));
          ds = (if expo then takeWhile is_digit (if signed then tl r3 else r3) else []);
          r4 = (if expo then dropWhile is_digit (if signed then tl r3 else r3) else r2);
          m = real (digits_value ip) + real (digits_value fp) / 10 ^ length fp
      in if ip = [] \<or> (dotted \<and> fp = []) \<or> (expo \<and> ds = []) then None
         else Some (scale10 (if neg then - m else m) (exponent_part r2), r4))"

fun parse_value :: "nat \<Rightarrow> string \<Rightarrow> (json \<times> string) option"
  and parse_elements :: "nat \<Rightarrow> json list \<Rightarrow> string \<Rightarrow> (json \<times> string) option"
  and parse_members :: "nat \<Rightarrow> (string \<times> json) list \<Rightarrow> string \<Rightarrow> (json \<times> string) option"
where
  "parse_value 0 s = None"
| "parse_value (Suc n) s =
     (case dropWhile is_json_ws s of
        [] \<Rightarrow> None
      | c # cs \<Rightarrow>
          if c = CHR ''{'' then
            (case dropWhile is_json_ws cs of
               [] \<Rightarrow> None
             | d # r \<Rightarrow> if d = CHR ''}'' then Some (JObj [], r) else parse_members n [] cs)
          else if c = CHR ''['' then
            (case dropWhile is_json_ws cs of
               [] \<Rightarrow> None
             | d # r \<Rightarrow> if d = CHR '']'' then Some (JArr [], r) else parse_elements n [] cs)
          else if c = CHR 0x22 then
            (case json_string_body [] cs of
               None \<Rightarrow> None
             | Some (str, r) \<Rightarrow> Some (JStr str, r))
          else if prefix ''true'' (c # cs) then Some (JBool True, drop 3 cs)
          else if prefix ''false'' (c # cs) then Some (JBool False, drop 4 cs)
          else if prefix ''null'' (c # cs) then Some (JNull, drop 3 cs)
          else
            (case json_number (c # cs) of
               None \<Rightarrow> None
             | Some (x, r) \<Rightarrow> Some (JNum x, r)))"
| "parse_elements 0 acc s = None"
| "parse_elements (Suc n) acc s =
     (case parse_value n s of
        None \<Rightarrow> None
      | Some (v, r) \<Rightarrow>
          (case dropWhile is_json_ws r of
             [] \<Rightarrow> None
           | d # r1 \<Rightarrow>
               if d = CHR '','' then parse_elements n (acc @ [v]) r1
               else if d = CHR '']'' then Some (JArr (acc @ [v]), r1)
               else None))"
| "parse_members 0 acc s = None"
| "parse_members (Suc n) acc s =
     (case dropWhile is_json_ws s of
        [] \<Rightarrow> None
      | q # r \<Rightarrow>
          if q = CHR 0x22 then
            (case json_string_body [] r of
               None \<Rightarrow> None
             | Some (k, r1) \<Rightarrow>
                 (case dropWhile is_json_ws r1 of
                    [] \<Rightarrow> None
                  | colon # r2 \<Rightarrow>
                      if colon = CHR '':'' then
                        (case parse_value n r2 of
                           None \<Rightarrow> None
                         | Some (v, r3) \<Rightarrow>
                             (case dropWhile is_json_ws r3 of
                                [] \<Rightarrow> None
                              | d # r4 \<Rightarrow>
                                  if d = CHR '','' then parse_members n (AList.update k v acc) r4
                                  else if d = CHR ''}'' then Some (JObj (AList.update k v acc), r4)
                                  else None))
                      else None))
          else None)"

definition JSON_parse_ref :: "string \<Rightarrow> json option" where
  "JSON_parse_ref text =
     (case parse_value (2 * length text + 2) text of
        None \<Rightarrow> None
      | Some (v, r) \<Rightarrow> if dropWhile is_json_ws r = [] then Some v else None)"

section \<open>Extracting JSON from the response text (utils.ts)\<close>

text \<open>
  \<open>text.match(/\{[\s\S]*\}/)\<close>: the match starts at the first \<open>{\<close> and, the star being
  greedy, ends at the last \<open>}\<close> after it.
\<close>

definition match_braces :: "string \<Rightarrow> string option" where
  "match_braces text =
     (let from_open = dropWhile (\<lambda>c. c \<noteq> CHR ''{'') text
      in if CHR ''}'' \<in> set from_open
         then Some (rev (dropWhile (\<lambda>c. c \<noteq> CHR ''}'') (rev from_open)))
         else None)"

text \<open>
  \<open>s.replace(re, replacement)\<close> for a global regular expression whose matches are not
  empty: \<open>m\<close> tells, for the text at the current position, the replacement and the length of
  the match that starts there. After a match the search goes on behind it.
\<close>

fun replace_all :: "(string \<Rightarrow> (string \<times> nat) option) \<Rightarrow> string \<Rightarrow> string" where
  "replace_all m [] = []"
| "replace_all m (c # cs) =
     (case m (c # cs) of
        None \<Rightarrow> c # replace_all m cs
      | Some (replacement, n) \<Rightarrow> replacement @ replace_all m (drop (n - 1) cs))"

definition is_quote :: "char \<Rightarrow> bool" where
  "is_quote c = (c = CHR 0x27 \<or> c = CHR 0x22)"

definition is_word_char :: "char \<Rightarrow> bool" where
  "is_word_char c =
     (c \<in> set ''abcdefghijklmnopqrstuvwxyzABCDEFGHIJKLMNOPQRSTUVWXYZ0123456789_'')"

text \<open>
  \<open>/(['"])?([a-zA-Z0-9_]+)(['"])?:/\<close> replaced by \<open>"$2":\<close>. A shorter word or a skipped
  optional quote never yields a match where the longest reading has none, so the longest
  reading decides.
\<close>

definition match_key :: "string \<Rightarrow> (string \<times> nat) option" where
  "match_key s =
     (let q1 = (case s of [] \<Rightarrow> 0 | c # _ \<Rightarrow> if is_quote c then 1 else (0::nat));
          s1 = drop q1 s;
          word = takeWhile is_word_char s1;
          s2 = dropWhile is_word_char s1;
          q2 = (case s2 of [] \<Rightarrow> 0 | c # _ \<Rightarrow> if is_quote c then 1 else (0::nat));
          s3 = drop q2 s2
      in if word \<noteq> [] \<and> (case s3 of [] \<Rightarrow> False | c # _ \<Rightarrow> c = CHR '':'')
         then Some ([CHR 0x22] @ word @ [CHR 0x22, CHR '':''], q1 + length word + q2 + 1)
         else None)"

text \<open>\<open>/,\s*}/\<close> replaced by \<open>}\<close>, and \<open>/,\s*]/\<close> by \<open>]\<close>.\<close>

definition match_trailing_comma :: "char \<Rightarrow> string \<Rightarrow> (string \<times> nat) option" where
  "match_trailing_comma closer s =
     (case s of
        [] \<Rightarrow> None
      | c # cs \<Rightarrow>
          if c = CHR '','' then
            (case dropWhile is_js_space cs of
               [] \<Rightarrow> None
             | d # _ \<Rightarrow>
                 if d = closer then Some ([closer], length (takeWhile is_js_space cs) + 2)
                 else None)
          else None)"

text \<open>\<open>/\\'/\<close> replaced by \<open>'\<close>, and \<open>/\\"/\<close> by \<open>"\<close>.\<close>

definition match_escaped :: "char \<Rightarrow> string \<Rightarrow> (string \<times> nat) option" where
  "match_escaped q s =
     (case s of
        c # d # _ \<Rightarrow> if c = CHR 0x5C \<and> d = q then Some ([q], 2) else None
      | _ \<Rightarrow> None)"

definition fixedJson :: "string \<Rightarrow> string" where
  "fixedJson m =
     replace_all (match_escaped (CHR 0x22))
       (replace_all (match_escaped (CHR 0x27))
         (replace_all (match_trailing_comma (CHR '']''))
           (replace_all (match_trailing_comma (CHR ''}''))
             (replace_all match_key m))))"

text \<open>
  \<open>extractJSONFromText(text)\<close>: the direct parse, then the parse of the brace match, then the
  parse of the repaired match; \<open>None\<close> is the \<open>null\<close> it returns when all fail.
\<close>

definition extractJSONFromText :: "(string \<Rightarrow> json option) \<Rightarrow> string \<Rightarrow> json option" where
  "extractJSONFromText JSON_parse text =
     (case JSON_parse text of
        Some v \<Rightarrow> Some v
      | None \<Rightarrow>
          (case match_braces text of
             None \<Rightarrow> None
           | Some jsonMatch \<Rightarrow>
               (case JSON_parse jsonMatch of
                  Some v \<Rightarrow> Some v
                | None \<Rightarrow> JSON_parse (fixedJson jsonMatch))))"

section \<open>The structured path (utils.ts)\<close>

text \<open>
  Reading a property \<open>data.key\<close> for one of the keys the verifier reads: only an object
  decoded from JSON has them; on a number, a string, a boolean or an array they are
  \<open>undefined\<close>.
\<close>

fun get_prop :: "json \<Rightarrow> string \<Rightarrow> json option" where
  "get_prop (JObj kvs) key = map_of kvs key"
| "get_prop v key = None"

text \<open>
  \<open>calculateConfidence(score)\<close>. \<open>normalizeScore\<close> sends \<open>Infinity\<close> to \<open>1\<close> by its second
  test and \<open>-Infinity\<close> to \<open>0\<close> by its first.
\<close>

definition normalizeScore_float :: "js_float \<Rightarrow> real option" where
  "normalizeScore_float f =
     (case f of
        NaN \<Rightarrow> None
      | Finite x \<Rightarrow> Some (normalizeScore x)
      | PosInfinity \<Rightarrow> Some 1
      | NegInfinity \<Rightarrow> Some 0)"

definition calculateConfidence :: "json option \<Rightarrow> real" where
  "calculateConfidence v =
     (case v of
        Some (JNum x) \<Rightarrow> normalizeScore x
      | Some (JStr s) \<Rightarrow> (case normalizeScore_float (parseFloat s) of None \<Rightarrow> 0.5 | Some c \<Rightarrow> c)
      | _ \<Rightarrow> 0.5)"

definition defaultMetrics :: VerificationMetrics where
  "defaultMetrics =
     \<lparr>latency = 0, inputTokens = 0, outputTokens = 0, totalTokens = 0, cost = 0,
      m_model = ''unknown'', m_provider = ''unknown''\<rparr>"

text \<open>\<open>createDefaultResult(originalInput)\<close>.\<close>

definition createDefaultResult :: "string \<Rightarrow> VerificationResult" where
  "createDefaultResult originalInput =
     \<lparr>isValid = False, confidence = 0, reason = Val (JStr ''Verification inconclusive''),
      issues = [Val (JStr ''Unable to verify'')], suggestions = [Val (JStr ''Please try again'')],
      categories = [], metrics = defaultMetrics,
      res_provider = None, res_model = None, res_error = Undefined, metadata = None\<rparr>"

text \<open>\<open>createErrorResult(message, originalInput)\<close>.\<close>

definition createErrorResult :: "string \<Rightarrow> string \<Rightarrow> VerificationResult" where
  "createErrorResult message originalInput =
     \<lparr>isValid = False, confidence = 0, reason = Val (JStr message),
      issues = [Val (JStr ''Parsing error'')],
      suggestions = [Val (JStr ''Please try again with different input'')],
      categories = [], metrics = metrics (createDefaultResult originalInput),
      res_provider = None, res_model = None, res_error = Val (JStr message), metadata = None\<rparr>"

definition validCategoryNames :: "string list" where
  "validCategoryNames =
     [''toxicity'', ''factuality'', ''coherence'', ''relevance'',
      ''safety'', ''moderation'', ''bias'']"

text \<open>\<open>typeof categoryData === 'object'\<close> for a truthy JSON value: an object or an array.\<close>

fun is_object :: "json \<Rightarrow> bool" where
  "is_object (JObj kvs) = True"
| "is_object (JArr xs) = True"
| "is_object v = False"

definition cannot_convert :: thrown where
  "cannot_convert = type_error ''Cannot convert object to primitive value''"

text \<open>
  \<open>normalizeScore(categoryData.score ?? 0)\<close>. The first comparison of \<open>normalizeScore\<close>
  converts a score that is no number to a primitive, which throws for the values of
  \<open>coercion_throws\<close>.
\<close>

definition category_score :: "json option \<Rightarrow> thrown + score_value" where
  "category_score v =
     (case v of
        None \<Rightarrow> Inr (Score (normalizeScore 0))
      | Some JNull \<Rightarrow> Inr (Score (normalizeScore 0))
      | Some (JNum x) \<Rightarrow> Inr (Score (normalizeScore x))
      | Some j \<Rightarrow> if coercion_throws j then Inl cannot_convert else Inr (NormalizedNonNumber j))"

text \<open>
  \<open>String(categoryData.explanation || 'Not provided')\<close>; \<open>String\<close> throws for the values of
  \<open>coercion_throws\<close>, which are truthy.
\<close>

definition category_explanation :: "json option \<Rightarrow> thrown + text_value" where
  "category_explanation v =
     (if truthy_opt v
      then (case v of
              Some (JStr s) \<Rightarrow> Inr (Text s)
            | Some j \<Rightarrow> if coercion_throws j then Inl cannot_convert else Inr (StringOf j)
            | None \<Rightarrow> Inr (Text ''Not provided''))
      else Inr (Text ''Not provided''))"

text \<open>\<open>Array.isArray(x) ? x : otherwise\<close>.\<close>

definition array_or :: "json option \<Rightarrow> 'a \<Rightarrow> (json list \<Rightarrow> 'a) \<Rightarrow> 'a" where
  "array_or v otherwise f = (case v of Some (JArr xs) \<Rightarrow> f xs | _ \<Rightarrow> otherwise)"

text \<open>
  The body of the loop of \<open>validateCategories\<close> for one category name. The properties of
  the object literal are evaluated in the order written: \<open>passed\<close>, \<open>score\<close>,
  \<open>explanation\<close>, \<open>details\<close>.
\<close>

definition validateCategory :: "json \<Rightarrow> string \<Rightarrow> thrown + CategoryResult" where
  "validateCategory cats categoryName =
     (case get_prop cats categoryName of
        None \<Rightarrow> Inr \<lparr>passed = False, score = Score 0, explanation = Text ''Category not checked'',
                     details = None\<rparr>
      | Some categoryData \<Rightarrow>
          if truthy categoryData \<and> is_object categoryData then
            (case category_score (get_prop categoryData ''score'') of
               Inl t \<Rightarrow> Inl t
             | Inr category_score_value \<Rightarrow>
                 (case category_explanation (get_prop categoryData ''explanation'') of
                    Inl t \<Rightarrow> Inl t
                  | Inr category_text \<Rightarrow>
                      Inr \<lparr>passed = truthy_opt (get_prop categoryData ''passed''),
                           score = category_score_value,
                           explanation = category_text,
                           details = array_or (get_prop categoryData ''details'') None Some\<rparr>))
          else
            Inr \<lparr>passed = False, score = Score 0, explanation = Text ''Category not checked'',
                 details = None\<rparr>)"

text \<open>
  A sequence of computations made in order, each returning or throwing: the values of all
  of them, or what the first one that throws has thrown.
\<close>

fun all_or_thrown :: "(thrown + 'a) list \<Rightarrow> thrown + 'a list" where
  "all_or_thrown [] = Inr []"
| "all_or_thrown (Inl t # rest) = Inl t"
| "all_or_thrown (Inr x # rest) =
     (case all_or_thrown rest of Inl t \<Rightarrow> Inl t | Inr xs \<Rightarrow> Inr (x # xs))"

text \<open>\<open>validateCategories(categories)\<close>: the loop over the seven names.\<close>

definition validateCategories :: "json \<Rightarrow> thrown + (string \<times> CategoryResult) list" where
  "validateCategories cats =
     all_or_thrown
       (map (\<lambda>categoryName.
               case validateCategory cats categoryName of
                 Inl t \<Rightarrow> Inl t
               | Inr category \<Rightarrow> Inr (categoryName, category))
          validCategoryNames)"

text \<open>
  \<open>validateAndFormatResult(data, originalInput)\<close>. \<open>Boolean(data.isValid) ?? ...\<close> is
  \<open>Boolean(data.isValid)\<close>, a boolean being never nullish; \<open>data.categories || {}\<close> is the
  empty object when the property is falsy. Only \<open>validateCategories\<close> can throw.
\<close>

definition validateAndFormatResult :: "json \<Rightarrow> string \<Rightarrow> thrown + VerificationResult" where
  "validateAndFormatResult data originalInput =
     (let defaultResult = createDefaultResult originalInput
      in case validateCategories
                (case get_prop data ''categories'' of
                   Some c \<Rightarrow> if truthy c then c else JObj []
                 | None \<Rightarrow> JObj []) of
           Inl t \<Rightarrow> Inl t
         | Inr validCategories \<Rightarrow>
             Inr \<lparr>isValid = truthy_opt (get_prop data ''isValid''),
                  confidence = calculateConfidence (get_prop data ''confidence''),
                  reason = (case get_prop data ''reason'' of
                              Some r \<Rightarrow> if truthy r then Val r else reason defaultResult
                            | None \<Rightarrow> reason defaultResult),
                  issues = array_or (get_prop data ''issues'') (issues defaultResult) (map Val),
                  suggestions =
                    array_or (get_prop data ''suggestions'') (suggestions defaultResult) (map Val),
                  categories = validCategories,
                  metrics = metrics defaultResult,
                  res_provider = None, res_model = None, res_error = Undefined,
                  metadata = None\<rparr>)"

section \<open>The free-text fallback (utils.ts)\<close>

text \<open>
  The tail \<open>.*?(\d+\.?\d*)\<close> of the confidence pattern, read behind the word
  \<open>confidence\<close>: the lazy \<open>.*?\<close> stops at the first digit and may not cross a line
  terminator; the group is that run of digits, a dot if one follows, and the digits behind
  the dot.
\<close>

fun confidence_number :: "string \<Rightarrow> string option" where
  "confidence_number [] = None"
| "confidence_number (c # cs) =
     (if is_digit c then
        (let ds = takeWhile is_digit (c # cs);
             r = dropWhile is_digit (c # cs)
         in case r of
              [] \<Rightarrow> Some ds
            | d # r1 \<Rightarrow> if d = CHR ''.'' then Some (ds @ [d] @ takeWhile is_digit r1) else Some ds)
      else if is_line_terminator c then None
      else confidence_number cs)"

text \<open>
  \<open>text.match(/confidence.*?(\d+\.?\d*)/i)\<close>: the group of the leftmost match, or \<open>None\<close>
  when the pattern matches nowhere.
\<close>

fun match_confidence :: "string \<Rightarrow> string option" where
  "match_confidence [] = None"
| "match_confidence (c # cs) =
     (if ci_prefix ''confidence'' (c # cs) then
        (case confidence_number (drop 10 (c # cs)) of
           Some g \<Rightarrow> Some g
         | None \<Rightarrow> match_confidence cs)
      else match_confidence cs)"

definition confidentWords :: "string list" where
  "confidentWords = [''definitely'', ''certainly'', ''clearly'', ''obviously'', ''undoubtedly'']"

definition uncertainWords :: "string list" where
  "uncertainWords = [''maybe'', ''perhaps'', ''possibly'', ''likely'', ''probably'']"

text \<open>
  \<open>calculateConfidenceFromText(text)\<close>. The group holds a decimal literal, so \<open>parseFloat\<close>
  of it is a finite number.
\<close>

definition calculateConfidenceFromText :: "string \<Rightarrow> real" where
  "calculateConfidenceFromText text =
     (case match_confidence text of
        Some g \<Rightarrow> (case normalizeScore_float (parseFloat g) of None \<Rightarrow> 0.5 | Some c \<Rightarrow> c)
      | None \<Rightarrow>
          (let textLower = toLowerCase text;
               confidentCount = length (filter (str_includes textLower) confidentWords);
               uncertainCount = length (filter (str_includes textLower) uncertainWords)
           in if confidentCount > uncertainCount then 0.8
              else if uncertainCount > confidentCount then 0.4
              else 0.6))"

text \<open>The group \<open>([^.\n]+)\<close> read at the start of \<open>s\<close>, as long as it can be.\<close>

definition sentence_run :: "string \<Rightarrow> string" where
  "sentence_run s = takeWhile (\<lambda>c. c \<noteq> CHR ''.'' \<and> c \<noteq> CHR 0x0A) s"

text \<open>
  A greedy run of separators followed by the group \<open>([^.\n]+)\<close>, with the backtracking of
  the matcher: the run is first taken \<open>j\<close> characters long and shortened one character at a
  time, down to one, until the group behind it is not empty. The result is the group and
  the length of run and group together.
\<close>

fun separators_then_group :: "nat \<Rightarrow> string \<Rightarrow> (string \<times> nat) option" where
  "separators_then_group 0 s = None"
| "separators_then_group (Suc j) s =
     (let g = sentence_run (drop (Suc j) s)
      in if g \<noteq> [] then Some (g, Suc j + length g) else separators_then_group j s)"

definition match_label_tail :: "(char \<Rightarrow> bool) \<Rightarrow> string \<Rightarrow> (string \<times> nat) option" where
  "match_label_tail sep s = separators_then_group (length (takeWhile sep s)) s"

text \<open>\<open>text.match(/reason[:\s]+([^.\n]+)/i)\<close>: the group of the leftmost match.\<close>

fun match_reason :: "string \<Rightarrow> string option" where
  "match_reason [] = None"
| "match_reason (c # cs) =
     (if ci_prefix ''reason'' (c # cs) then
        (case match_label_tail (\<lambda>d. d = CHR '':'' \<or> is_js_space d) (drop 6 (c # cs)) of
           Some (g, n) \<Rightarrow> Some g
         | None \<Rightarrow> match_reason cs)
      else match_reason cs)"

text \<open>\<open>extractReason(text)\<close>; \<open>text.split('.')[0]\<close> is the text before the first dot.\<close>

definition extractReason :: "string \<Rightarrow> string" where
  "extractReason text =
     (case match_reason text of
        Some g \<Rightarrow> trim g
      | None \<Rightarrow>
          (let firstSentence = takeWhile (\<lambda>c. c \<noteq> CHR ''.'') text
           in if firstSentence \<noteq> [] \<and> length firstSentence > 10 then trim firstSentence
              else ''Automated analysis completed''))"

text \<open>
  \<open>extractListFromText\<close> builds \<open>new RegExp(`${pattern}[:\s]+([^.\n]+)`, 'gi')\<close>. Inside a
  template literal \<open>\s\<close> is the letter \<open>s\<close>, so the separator class is \<open>[:s]\<close>, which under
  the flag \<open>i\<close> holds \<open>:\<close>, \<open>s\<close> and \<open>S\<close>. Each of the six patterns is a word followed by
  \<open>s?\<close>; an optional \<open>s\<close> in front of \<open>[:s]+\<close> matches the same texts with the same group
  as \<open>[:s]+\<close> alone, so the pattern is read as the word without its \<open>s?\<close>.
\<close>

definition is_label_separator :: "char \<Rightarrow> bool" where
  "is_label_separator c = (c = CHR '':'' \<or> c = CHR ''s'' \<or> c = CHR ''S'')"

definition pattern_word :: "string \<Rightarrow> string" where
  "pattern_word pattern = take (length pattern - 2) pattern"

text \<open>\<open>text.matchAll(regex)\<close>: the groups of the successive matches, left to right.\<close>

function label_groups :: "string \<Rightarrow> string \<Rightarrow> string list" where
  "label_groups word [] = []"
| "label_groups word (c # cs) =
     (if ci_prefix word (c # cs) then
        (case match_label_tail is_label_separator (drop (length word) (c # cs)) of
           Some (g, n) \<Rightarrow> g # label_groups word (drop (length word + n - 1) cs)
         | None \<Rightarrow> label_groups word cs)
      else label_groups word cs)"
  by pat_completeness auto
termination
  by (relation "measure (\<lambda>(word, s). length s)") auto

text \<open>
  \<open>match[1].split(/[,;...\-]\s*/)\<close>. Between \<open>;\<close> and \<open>\-\<close> the class of the source file
  holds the characters U+00E2, U+20AC and U+00A2; the first and the last are code units
  of the model.
\<close>

definition is_list_separator :: "char \<Rightarrow> bool" where
  "is_list_separator c = (c \<in> {CHR '','', CHR '';'', CHR 0xE2, CHR 0xA2, CHR ''-''})"

function split_parts :: "string \<Rightarrow> string \<Rightarrow> string list" where
  "split_parts cur [] = [rev cur]"
| "split_parts cur (c # cs) =
     (if is_list_separator c then rev cur # split_parts [] (dropWhile is_js_space cs)
      else split_parts (c # cur) cs)"
  by pat_completeness auto
termination
  by (relation "measure (\<lambda>(cur, s). length s)") (auto simp: length_dropWhile_le less_Suc_eq_le)

text \<open>\<open>[...new Set(items)]\<close>: duplicates removed, the first occurrence kept.\<close>

definition unique_items :: "string list \<Rightarrow> string list" where
  "unique_items items = rev (remdups (rev items))"

text \<open>\<open>extractListFromText(text, patterns)\<close>.\<close>

definition extractListFromText :: "string \<Rightarrow> string list \<Rightarrow> string list" where
  "extractListFromText text patterns =
     unique_items
       (concat (map (\<lambda>pattern.
          concat (map (\<lambda>g. filter (\<lambda>p. length p > 0) (map trim (split_parts [] g)))
                      (label_groups (pattern_word pattern) text)))
          patterns))"

definition positiveIndicators :: "string list" where
  "positiveIndicators =
     [''valid'', ''passed'', ''ok'', ''good'', ''safe'', ''appropriate'', ''acceptable'']"

definition negativeIndicators :: "string list" where
  "negativeIndicators =
     [''invalid'', ''failed'', ''bad'', ''unsafe'', ''inappropriate'', ''reject'']"

text \<open>
  \<open>positiveIndicators.some(indicator => textLower.includes(indicator))\<close>, and the same for
  the negative indicators.
\<close>

definition hasPositive :: "string \<Rightarrow> bool" where
  "hasPositive textLower =
     list_ex (\<lambda>indicator. str_includes textLower indicator) positiveIndicators"

definition hasNegative :: "string \<Rightarrow> bool" where
  "hasNegative textLower =
     list_ex (\<lambda>indicator. str_includes textLower indicator) negativeIndicators"

text \<open>\<open>parseUnstructuredResponse(text, originalInput)\<close>.\<close>

definition parseUnstructuredResponse :: "string \<Rightarrow> string \<Rightarrow> VerificationResult" where
  "parseUnstructuredResponse text originalInput =
     (let textLower = toLowerCase text;
          found_issues = extractListFromText text [''issues?'', ''problems?'', ''concerns?''];
          found_suggestions =
            extractListFromText text [''suggestions?'', ''recommendations?'', ''improvements?'']
      in \<lparr>isValid = (hasPositive textLower \<and> \<not> hasNegative textLower),
          confidence = calculateConfidenceFromText text,
          reason = Val (JStr (extractReason text)),
          issues = (if length found_issues > 0 then map (\<lambda>s. Val (JStr s)) found_issues
                    else [Val (JStr ''No specific issues mentioned'')]),
          suggestions = (if length found_suggestions > 0
                         then map (\<lambda>s. Val (JStr s)) found_suggestions
                         else [Val (JStr ''No suggestions provided'')]),
          categories = [],
          metrics = metrics (createDefaultResult originalInput),
          res_provider = None, res_model = None, res_error = Undefined, metadata = None\<rparr>)"

text \<open>
  \<open>parseLLMResponse(response, originalInput)\<close>. Inside its \<open>try\<close>, \<open>extractJSONFromText\<close>
  catches what \<open>JSON.parse\<close> throws and \<open>parseUnstructuredResponse\<close> works on a string
  with methods that do not throw; \<open>validateAndFormatResult\<close> can throw, and the \<open>catch\<close>
  then returns \<open>createErrorResult('Failed to parse verification response', ..)\<close>.
\<close>

definition responseText :: "LLMResponse \<Rightarrow> string" where
  "responseText response =
     (case output_text response of
        Some t \<Rightarrow> if t \<noteq> [] then t else or_str (choices_content response) []
      | None \<Rightarrow> or_str (choices_content response) [])"

definition parseLLMResponse ::
  "(string \<Rightarrow> json option) \<Rightarrow> LLMResponse \<Rightarrow> string \<Rightarrow> VerificationResult" where
  "parseLLMResponse JSON_parse response originalInput =
     (case extractJSONFromText JSON_parse (responseText response) of
        Some jsonData \<Rightarrow>
          if truthy jsonData then
            (case validateAndFormatResult jsonData originalInput of
               Inr result \<Rightarrow> result
             | Inl error \<Rightarrow>
                 createErrorResult ''Failed to parse verification response'' originalInput)
          else parseUnstructuredResponse (responseText response) originalInput
      | None \<Rightarrow> parseUnstructuredResponse (responseText response) originalInput)"

section \<open>The call orchestrator (LLMVerifier.ts)\<close>

text \<open>
  The provider is outside the repository. \<open>adapter k\<close> is the outcome of the SDK call that
  \<open>callLLMWithRetry\<close> makes with \<open>retryCount = k\<close>: the response object assigned to
  \<open>response\<close>, or the value thrown. What the verifier does besides computing its result is
  recorded as a trace: the provider calls, and the sleeps with their duration in
  milliseconds. The calls to the logger and to Sentry are outside the repository too; they
  are taken to return, do not change the result, and are left out.
\<close>

datatype event = Attempt nat | Sleep nat

text \<open>
  The \<open>switch\<close> on \<open>this.providerConfig.name\<close> inside the \<open>try\<close> of \<open>callLLMWithRetry\<close>; its
  default branch throws, and the throw is caught by the \<open>catch\<close> of the same function.
\<close>

definition call_provider ::
  "verifier \<Rightarrow> (nat \<Rightarrow> thrown + LLMResponse) \<Rightarrow> nat \<Rightarrow> thrown + LLMResponse" where
  "call_provider v adapter retryCount =
     (if cfg_name (providerConfig v) = ''openai'' \<or> cfg_name (providerConfig v) = ''gemini'' \<or>
         cfg_name (providerConfig v) = ''anthropic''
      then adapter retryCount
      else Inl (unsupported_provider (cfg_name (providerConfig v))))"

text \<open>
  \<open>callLLMWithRetry(prompt, options, retryCount)\<close>: the response or the value thrown at
  the end, and the trace. In \<open>retryCount < this.maxRetries && isRetryableError(error)\<close> the
  classification is only called when the count allows a retry; what it throws leaves the
  \<open>catch\<close> block in place of the provider's error.
\<close>

function callLLMWithRetry ::
  "verifier \<Rightarrow> (nat \<Rightarrow> thrown + LLMResponse) \<Rightarrow> nat \<Rightarrow> (thrown + LLMResponse) \<times> event list" where
  "callLLMWithRetry v adapter retryCount =
     (case call_provider v adapter retryCount of
        Inr response \<Rightarrow> (Inr response, [Attempt retryCount])
      | Inl error \<Rightarrow>
          if int retryCount < maxRetries v then
            (case isRetryableError error of
               Inl t \<Rightarrow> (Inl t, [Attempt retryCount])
             | Inr is_retryable \<Rightarrow>
                 if is_retryable then
                   (case callLLMWithRetry v adapter (retryCount + 1) of
                      (outcome, trace) \<Rightarrow>
                        (outcome, Attempt retryCount # Sleep (2 ^ retryCount * 1000) # trace))
                 else (Inl error, [Attempt retryCount]))
          else (Inl error, [Attempt retryCount]))"
  by pat_completeness auto
termination
  by (relation "measure (\<lambda>(v, adapter, retryCount). nat (maxRetries v - int retryCount))") auto

declare callLLMWithRetry.simps [simp del]

text \<open>
  \<open>calculateCost\<close> and \<open>calculateMetrics\<close>; \<open>elapsed\<close> is \<open>Date.now() - startTime\<close>, and
  \<open>Math.ceil(input.length / 4)\<close> is written with natural numbers.
\<close>

definition calculateCost :: "verifier \<Rightarrow> nat \<Rightarrow> nat \<Rightarrow> real" where
  "calculateCost v inTokens outTokens =
     (real inTokens / 1000) * costInput (providerConfig v) +
     (real outTokens / 1000) * costOutput (providerConfig v)"

definition or_nat :: "nat \<Rightarrow> nat \<Rightarrow> nat" where
  "or_nat a b = (if a = 0 then b else a)"

definition calculateMetrics :: "verifier \<Rightarrow> LLMResponse \<Rightarrow> nat \<Rightarrow> string \<Rightarrow> VerificationMetrics" where
  "calculateMetrics v response elapsed input =
     (let inTokens = or_nat (case resp_usage response of None \<Rightarrow> 0 | Some u \<Rightarrow> prompt_tokens u)
                        ((length input + 3) div 4);
          outTokens = or_nat (case resp_usage response of None \<Rightarrow> 0 | Some u \<Rightarrow> completion_tokens u) 0;
          allTokens = or_nat (case resp_usage response of None \<Rightarrow> 0 | Some u \<Rightarrow> total_tokens u)
                        (inTokens + outTokens)
      in \<lparr>latency = elapsed, inputTokens = inTokens, outputTokens = outTokens,
          totalTokens = allTokens, cost = calculateCost v inTokens outTokens,
          m_model = or_str (resp_model response) (defaultModel v),
          m_provider = cfg_name (providerConfig v)\<rparr>)"

text \<open>
  The template literal \<open>`${p}${v}`\<close> for a fixed text \<open>p\<close>: an absent value prints as
  \<open>undefined\<close>, an object as \<open>[object Object]\<close>; the conversion throws for the values of
  \<open>coercion_throws\<close>.
\<close>

definition template :: "string \<Rightarrow> json option \<Rightarrow> thrown + js_value" where
  "template p v =
     (case v of
        None \<Rightarrow> Inr (Val (JStr (p @ ''undefined'')))
      | Some JNull \<Rightarrow> Inr (Val (JStr (p @ ''null'')))
      | Some (JBool b) \<Rightarrow> Inr (Val (JStr (p @ (if b then ''true'' else ''false''))))
      | Some (JNum x) \<Rightarrow> Inr (Template p (JNum x))
      | Some (JStr s) \<Rightarrow> Inr (Val (JStr (p @ s)))
      | Some (JArr xs) \<Rightarrow>
          if coercion_throws (JArr xs) then Inl cannot_convert else Inr (Template p (JArr xs))
      | Some (JObj kvs) \<Rightarrow>
          if coercion_throws (JObj kvs) then Inl cannot_convert
          else Inr (Val (JStr (p @ ''[object Object]''))))"

text \<open>
  \<open>handleVerificationError(error, input, options)\<close>. The object literal is evaluated in
  the order written, and these of its expressions can throw: \<open>error.message\<close> of
  \<open>undefined\<close> or \<open>null\<close> (in the template of \<open>reason\<close>), the conversion of the message in
  that template, \<open>error.constructor.name\<close> of a value without constructor, and
  \<open>isRetryableError(error)\<close>. \<open>error.code || error.status\<close> is the code when it is truthy
  and the status otherwise.
\<close>

definition handleVerificationError ::
  "verifier \<Rightarrow> thrown \<Rightarrow> string \<Rightarrow> VerificationOptions \<Rightarrow> thrown + VerificationResult" where
  "handleVerificationError v error input options =
     (case error of
        ThrownUndefined \<Rightarrow>
          Inl (type_error (''Cannot read properties of undefined (reading '' @
                           [CHR 0x27] @ ''message'' @ [CHR 0x27] @ '')''))
      | ThrownNull \<Rightarrow>
          Inl (type_error (''Cannot read properties of null (reading '' @
                           [CHR 0x27] @ ''message'' @ [CHR 0x27] @ '')''))
      | Thrown e \<Rightarrow>
          (case template ''Verification failed: '' (e_message e) of
             Inl t \<Rightarrow> Inl t
           | Inr failure_reason \<Rightarrow>
               (case e_constructor e of
                  None \<Rightarrow>
                    Inl (type_error (''Cannot read properties of undefined (reading '' @
                                     [CHR 0x27] @ ''name'' @ [CHR 0x27] @ '')''))
                | Some constructor_name \<Rightarrow>
                    (case isRetryableError error of
                       Inl t \<Rightarrow> Inl t
                     | Inr is_retryable \<Rightarrow>
                         Inr \<lparr>isValid = False,
                              confidence = 0,
                              reason = failure_reason,
                              issues = [Val (JStr ''LLM API error''), of_optional (e_message e)],
                              suggestions = [Val (JStr ''Please try again later''),
                                             Val (JStr ''Check API key configuration'')],
                              categories = [],
                              metrics =
                                \<lparr>latency = 0, inputTokens = 0, outputTokens = 0,
                                 totalTokens = 0, cost = 0,
                                 m_model = or_str (o_model options) (defaultModel v),
                                 m_provider = cfg_name (providerConfig v)\<rparr>,
                              res_provider = Some (cfg_name (providerConfig v)),
                              res_model = Some (or_str (o_model options) (defaultModel v)),
                              res_error = of_optional (e_message e),
                              metadata =
                                Some \<lparr>errorType = constructor_name,
                                      errorCode = (if truthy_opt (e_code e)
                                                   then of_optional (e_code e)
                                                   else of_optional (e_status e)),
                                      retryable = is_retryable\<rparr>\<rparr>))))"

text \<open>
  The \<open>try\<close> block of \<open>verify\<close>: the response of \<open>callLLMWithRetry\<close> parsed, with the metrics,
  the provider and the model stored into the result; or the value that
  \<open>callLLMWithRetry\<close> throws.
\<close>

definition verify_try ::
  "(string \<Rightarrow> json option) \<Rightarrow> verifier \<Rightarrow> (nat \<Rightarrow> thrown + LLMResponse) \<Rightarrow> nat \<Rightarrow>
   string \<Rightarrow> VerificationOptions \<Rightarrow> thrown + VerificationResult" where
  "verify_try JSON_parse v adapter elapsed input options =
     (case fst (callLLMWithRetry v adapter 0) of
        Inl error \<Rightarrow> Inl error
      | Inr llmResponse \<Rightarrow>
          Inr ((parseLLMResponse JSON_parse llmResponse input)
                 \<lparr>metrics := calculateMetrics v llmResponse elapsed input,
                  res_provider := Some (cfg_name (providerConfig v)),
                  res_model := Some (or_str (o_model options) (defaultModel v))\<rparr>))"

text \<open>
  \<open>verify(input, options)\<close>: the \<open>try\<close> block, and the \<open>catch\<close> whose first statement is
  \<open>const errorResult = this.handleVerificationError(error, input, options)\<close>. The result
  is the \<open>VerificationResult\<close> the promise is fulfilled with, or the value it is rejected
  with: what \<open>handleVerificationError\<close> throws inside the \<open>catch\<close> block leaves \<open>verify\<close>.
  The statements behind it in the \<open>catch\<close> block read \<open>error.message\<close> of a value that
  is not nullish by then, and call the logger and Sentry. \<open>Sentry.startTransaction\<close>
  stands before the \<open>try\<close> and \<open>transaction.finish\<close> in the \<open>finally\<close>; like the other
  monitoring calls they are taken to return.
\<close>

definition verify ::
  "(string \<Rightarrow> json option) \<Rightarrow> verifier \<Rightarrow> (nat \<Rightarrow> thrown + LLMResponse) \<Rightarrow> nat \<Rightarrow>
   string \<Rightarrow> VerificationOptions \<Rightarrow> thrown + VerificationResult" where
  "verify JSON_parse v adapter elapsed input options =
     (case verify_try JSON_parse v adapter elapsed input options of
        Inr result \<Rightarrow> Inr result
      | Inl error \<Rightarrow> handleVerificationError v error input options)"

section \<open>The batch coordinator (LLMVerifier.ts)\<close>












section \<open>Vocabulary of the properties\<close>

text \<open>
  The trace of a run of the retry loop that retries \<open>m\<close> times: the attempts \<open>0\<close> to \<open>m\<close>,
  with a sleep of \<open>2 ^ k\<close> seconds behind each attempt \<open>k\<close> but the last.
\<close>

definition retry_trace :: "nat \<Rightarrow> event list" where
  "retry_trace m = concat (map (\<lambda>k. [Attempt k, Sleep (2 ^ k * 1000)]) [0 ..< m]) @ [Attempt m]"

text \<open>The verifier was constructed for one of the three providers.\<close>

definition supported :: "verifier \<Rightarrow> bool" where
  "supported v =
     (cfg_name (providerConfig v) = ''openai'' \<or> cfg_name (providerConfig v) = ''gemini'' \<or>
      cfg_name (providerConfig v) = ''anthropic'')"

text \<open>
  The response text takes the fallback path: no JSON could be extracted from it, or the
  value extracted is falsy.
\<close>

definition falls_back :: "(string \<Rightarrow> json option) \<Rightarrow> string \<Rightarrow> bool" where
  "falls_back JSON_parse text =
     (case extractJSONFromText JSON_parse text of None \<Rightarrow> True | Some j \<Rightarrow> \<not> truthy j)"

subsection \<open>The documented output schema\<close>

text \<open>
  The shape the prompt asks the model for, in the words of the specification: an object
  with a boolean \<open>isValid\<close>, a number \<open>confidence\<close> in \<open>[0,1]\<close>, a string \<open>reason\<close>, arrays of
  strings \<open>issues\<close> and \<open>suggestions\<close>, and an object \<open>categories\<close> whose entry for each of
  the seven canonical names is an object with a boolean \<open>passed\<close>, a number \<open>score\<close> in
  \<open>[0,1]\<close> and a string \<open>explanation\<close> (and no \<open>details\<close>).
\<close>

fun is_JObj :: "json \<Rightarrow> bool" where
  "is_JObj (JObj kvs) = True"
| "is_JObj v = False"

fun is_JBool :: "json option \<Rightarrow> bool" where
  "is_JBool (Some (JBool b)) = True"
| "is_JBool v = False"

fun is_JStr :: "json option \<Rightarrow> bool" where
  "is_JStr (Some (JStr s)) = True"
| "is_JStr v = False"

fun is_unit_number :: "json option \<Rightarrow> bool" where
  "is_unit_number (Some (JNum x)) = (0 \<le> x \<and> x \<le> 1)"
| "is_unit_number v = False"

fun is_string_array :: "json option \<Rightarrow> bool" where
  "is_string_array (Some (JArr xs)) = list_all (\<lambda>x. is_JStr (Some x)) xs"
| "is_string_array v = False"

definition entry :: "json \<Rightarrow> string \<Rightarrow> json" where
  "entry j key = (case get_prop j key of None \<Rightarrow> JNull | Some v \<Rightarrow> v)"

definition schema_category :: "json \<Rightarrow> bool" where
  "schema_category c =
     (is_JObj c \<and> is_JBool (get_prop c ''passed'') \<and> is_unit_number (get_prop c ''score'') \<and>
      is_JStr (get_prop c ''explanation'') \<and> get_prop c ''details'' = None)"

definition matches_output_schema :: "json \<Rightarrow> bool" where
  "matches_output_schema j =
     (is_JObj j \<and> is_JBool (get_prop j ''isValid'') \<and> is_unit_number (get_prop j ''confidence'') \<and>
      is_JStr (get_prop j ''reason'') \<and> is_string_array (get_prop j ''issues'') \<and>
      is_string_array (get_prop j ''suggestions'') \<and> is_JObj (entry j ''categories'') \<and>
      list_all (\<lambda>name. schema_category (entry (entry j ''categories'') name)) validCategoryNames)"

text \<open>The verdict written in a document: its fields read as they stand.\<close>

fun doc_bool :: "json \<Rightarrow> bool" where
  "doc_bool (JBool b) = b"
| "doc_bool v = False"

fun doc_number :: "json \<Rightarrow> real" where
  "doc_number (JNum x) = x"
| "doc_number v = 0"

fun doc_string :: "json \<Rightarrow> string" where
  "doc_string (JStr s) = s"
| "doc_string v = []"

definition doc_category :: "json \<Rightarrow> CategoryResult" where
  "doc_category c =
     \<lparr>passed = doc_bool (entry c ''passed''), score = Score (doc_number (entry c ''score'')),
      explanation = Text (doc_string (entry c ''explanation'')), details = None\<rparr>"

definition doc_categories :: "json \<Rightarrow> (string \<times> CategoryResult) list" where
  "doc_categories j =
     map (\<lambda>name. (name, doc_category (entry (entry j ''categories'') name))) validCategoryNames"

text \<open>Every category of the document has an explanation that is not the empty string.\<close>

definition explanations_given :: "json \<Rightarrow> bool" where
  "explanations_given j =
     list_all (\<lambda>name. doc_string (entry (entry (entry j ''categories'') name) ''explanation'') \<noteq> [])
       validCategoryNames"

text \<open>
  Two documents of the schema. In the second the explanation of \<open>toxicity\<close> is the empty
  string.
\<close>

definition example_document :: string where
  \<open>example_document =
     ''{"isValid": true, "confidence": 0.85, "reason": "clean", "issues": [], '' @
     ''"suggestions": ["none"], "categories": {'' @
     ''"toxicity": {"passed": true, "score": 0.1, "explanation": "no toxic words"}, '' @
     ''"factuality": {"passed": true, "score": 0.9, "explanation": "checked"}, '' @
     ''"coherence": {"passed": true, "score": 1, "explanation": "reads well"}, '' @
     ''"relevance": {"passed": false, "score": 0, "explanation": "off topic"}, '' @
     ''"safety": {"passed": true, "score": 0.7, "explanation": "safe"}, '' @
     ''"moderation": {"passed": true, "score": 0.5, "explanation": "fine"}, '' @
     ''"bias": {"passed": true, "score": 0.25, "explanation": "neutral"}}}''\<close>

definition example_document_empty :: string where
  \<open>example_document_empty =
     ''{"isValid": true, "confidence": 0.85, "reason": "clean", "issues": [], '' @
     ''"suggestions": ["none"], "categories": {'' @
     ''"toxicity": {"passed": true, "score": 0.1, "explanation": ""}, '' @
     ''"factuality": {"passed": true, "score": 0.9, "explanation": "checked"}, '' @
     ''"coherence": {"passed": true, "score": 1, "explanation": "reads well"}, '' @
     ''"relevance": {"passed": false, "score": 0, "explanation": "off topic"}, '' @
     ''"safety": {"passed": true, "score": 0.7, "explanation": "safe"}, '' @
     ''"moderation": {"passed": true, "score": 0.5, "explanation": "fine"}, '' @
     ''"bias": {"passed": true, "score": 0.25, "explanation": "neutral"}}}''\<close>

subsection \<open>Documents whose validation throws\<close>

text \<open>
  Some canonical category of the document is an object or an array whose \<open>score\<close> or
  \<open>explanation\<close> cannot be converted to a primitive: it is an object with a key
  \<open>toString\<close>, or an array holding such an object.
\<close>

definition validation_raises :: "json \<Rightarrow> bool" where
  "validation_raises j =
     list_ex (\<lambda>name. is_object (entry (entry j ''categories'') name) \<and>
                (coercion_throws (entry (entry (entry j ''categories'') name) ''score'') \<or>
                 coercion_throws (entry (entry (entry j ''categories'') name) ''explanation'')))
       validCategoryNames"

text \<open>The response took the structured path and its document \<open>j\<close> was validated.\<close>

definition extracts :: "(string \<Rightarrow> json option) \<Rightarrow> string \<Rightarrow> json \<Rightarrow> bool" where
  "extracts JSON_parse text j = (extractJSONFromText JSON_parse text = Some j \<and> truthy j)"

subsection \<open>Batch sizes\<close>


subsection \<open>Inputs for the examples\<close>

definition example_verifier :: verifier where
  "example_verifier =
     \<lparr>providerConfig = openai_config Map.empty, defaultModel = ''gpt-4o-mini'', maxRetries = 3\<rparr>"

definition example_options :: VerificationOptions where
  "example_options = \<lparr>o_model = None, batchSize = None, batchIndex = None, batchTotal = None\<rparr>"

text \<open>The error object of an HTTP failure, with its status and message.\<close>

definition http_error :: "real \<Rightarrow> string \<Rightarrow> error_object" where
  "http_error s m =
     \<lparr>e_constructor = Some ''APIError'', e_code = None, e_status = Some (JNum s),
      e_message = Some (JStr m)\<rparr>"

definition text_response :: "string \<Rightarrow> LLMResponse" where
  "text_response t =
     \<lparr>output_text = Some t, choices_content = None, resp_usage = None, resp_model = None\<rparr>"

text \<open>
  A document one of whose categories has an object with a key \<open>toString\<close> as explanation.
\<close>

definition example_document_raising :: string where
  \<open>example_document_raising =
     ''{"isValid": true, "confidence": 0.9, "categories": {'' @
     ''"toxicity": {"passed": true, "score": 0.1, "explanation": {"toString": 1}}}}''\<close>

section \<open>Properties\<close>

subsection \<open>Substrings and score normalisation\<close>

lemma str_includes_iff: "str_includes s sub \<longleftrightarrow> (\<exists>p q. s = p @ sub @ q)"
proof (induction s)
  case Nil
  then show ?case by auto
next
  case (Cons c cs)
  show ?case
  proof
    assume "str_includes (c # cs) sub"
    then consider "prefix sub (c # cs)" | "str_includes cs sub" by auto
    then show "\<exists>p q. c # cs = p @ sub @ q"
    proof cases
      case 1
      then obtain q where "c # cs = sub @ q" by (auto simp: prefix_def)
      then have "c # cs = [] @ sub @ q" by simp
      then show ?thesis by blast
    next
      case 2
      with Cons.IH obtain p q where "cs = p @ sub @ q" by blast
      then have "c # cs = (c # p) @ sub @ q" by simp
      then show ?thesis by blast
    qed
  next
    assume "\<exists>p q. c # cs = p @ sub @ q"
    then obtain p q where pq: "c # cs = p @ sub @ q" by blast
    show "str_includes (c # cs) sub"
    proof (cases p)
      case Nil
      with pq have "prefix sub (c # cs)" by (simp add: prefix_def)
      then show ?thesis by simp
    next
      case (Cons a p')
      with pq have "cs = p' @ sub @ q" by simp
      with Cons.IH have "str_includes cs sub" by blast
      then show ?thesis by simp
    qed
  qed
qed

lemma normalizeScore_clamp:
  "normalizeScore x = (if x \<le> 0 then 0 else if x \<ge> 1 then 1 else x)"
  by (simp add: normalizeScore_def)

lemma normalizeScore_range: "0 \<le> normalizeScore x \<and> normalizeScore x \<le> 1"
  by (simp add: normalizeScore_clamp)

text \<open>
  C4. The scale branches of \<open>normalizeScore\<close> sit behind \<open>if (score >= 1) return 1\<close>, so
  they never run: the raw scores 150, 85, 8 and 4 all normalise to 1, where the claim has
  0.85 for 85 and 0.8 for 8 and for 4; only the values in \<open>[0,1]\<close> come back as they are.
\<close>

theorem normalizeScore_scales_unreachable:
  "normalizeScore 150 = 1 \<and> normalizeScore 85 = 1 \<and> normalizeScore 8 = 1 \<and>
   normalizeScore 4 = 1 \<and> normalizeScore 0.5 = 0.5 \<and> normalizeScore 0 = 0 \<and>
   normalizeScore 1 = 1"
  by (simp add: normalizeScore_def)

subsection \<open>The retry loop\<close>

lemma retry_unroll:
  assumes "\<forall>k. r \<le> k \<and> k < m \<longrightarrow>
             int k < maxRetries v \<and>
             (\<exists>e'. call_provider v adapter k = Inl e' \<and> isRetryableError e' = Inr True)"
    and "r \<le> m"
  shows "callLLMWithRetry v adapter r =
           (fst (callLLMWithRetry v adapter m),
            concat (map (\<lambda>k. [Attempt k, Sleep (2 ^ k * 1000)]) [r ..< m]) @
            snd (callLLMWithRetry v adapter m))"
  using assms
proof (induction "m - r" arbitrary: r)
  case 0
  then have "r = m" by simp
  then show ?case by simp
next
  case (Suc d)
  then have rm: "r < m" by simp
  with Suc.prems obtain e' where e': "int r < maxRetries v" "call_provider v adapter r = Inl e'"
      "isRetryableError e' = Inr True" by auto
  have IH: "callLLMWithRetry v adapter (Suc r) =
           (fst (callLLMWithRetry v adapter m),
            concat (map (\<lambda>k. [Attempt k, Sleep (2 ^ k * 1000)]) [Suc r ..< m]) @
            snd (callLLMWithRetry v adapter m))"
    using Suc.hyps(1)[of "Suc r"] Suc.hyps(2) Suc.prems rm by auto
  have "callLLMWithRetry v adapter r =
          (fst (callLLMWithRetry v adapter (Suc r)),
           Attempt r # Sleep (2 ^ r * 1000) # snd (callLLMWithRetry v adapter (Suc r)))"
    using e' by (subst callLLMWithRetry.simps) (simp add: case_prod_unfold)
  also have "\<dots> = (fst (callLLMWithRetry v adapter m),
            concat (map (\<lambda>k. [Attempt k, Sleep (2 ^ k * 1000)]) [r ..< m]) @
            snd (callLLMWithRetry v adapter m))"
    using rm by (simp add: IH upt_conv_Cons)
  finally show ?case .
qed

lemma retry_stops:
  assumes "call_provider v adapter m = Inl e"
    and "isRetryableError e = Inr False \<or> maxRetries v \<le> int m"
  shows "callLLMWithRetry v adapter m = (Inl e, [Attempt m])"
  using assms by (subst callLLMWithRetry.simps) auto

lemma retry_classification_throws:
  assumes "call_provider v adapter m = Inl e"
    and "int m < maxRetries v"
    and "isRetryableError e = Inl t"
  shows "callLLMWithRetry v adapter m = (Inl t, [Attempt m])"
  using assms by (subst callLLMWithRetry.simps) auto

lemma retry_succeeds:
  assumes "call_provider v adapter m = Inr response"
  shows "callLLMWithRetry v adapter m = (Inr response, [Attempt m])"
  using assms by (subst callLLMWithRetry.simps) auto

text \<open>Every run of the retry loop has the shape that \<open>retry_unroll\<close> asks for.\<close>

lemma retry_shape:
  "\<exists>m\<ge>r. (\<forall>k. r \<le> k \<and> k < m \<longrightarrow>
             int k < maxRetries v \<and>
             (\<exists>e'. call_provider v adapter k = Inl e' \<and> isRetryableError e' = Inr True)) \<and>
          snd (callLLMWithRetry v adapter m) = [Attempt m] \<and>
          (fst (callLLMWithRetry v adapter m) = call_provider v adapter m \<or>
           (\<exists>e t. call_provider v adapter m = Inl e \<and> isRetryableError e = Inl t \<and>
                  fst (callLLMWithRetry v adapter m) = Inl t))"
proof (induction v adapter r rule: callLLMWithRetry.induct)
  case (1 v adapter r)
  show ?case
  proof (cases "call_provider v adapter r")
    case (Inr response)
    then have "callLLMWithRetry v adapter r = (call_provider v adapter r, [Attempt r])"
      by (simp add: retry_succeeds)
    then show ?thesis by (intro exI[of _ r]) auto
  next
    case (Inl e)
    show ?thesis
    proof (cases "int r < maxRetries v")
      case False
      then have "callLLMWithRetry v adapter r = (call_provider v adapter r, [Attempt r])"
        using retry_stops[OF Inl] Inl by simp
      then show ?thesis by (intro exI[of _ r]) auto
    next
      case budget: True
      show ?thesis
      proof (cases "isRetryableError e")
        case (Inl t)
        have "callLLMWithRetry v adapter r = (Inl t, [Attempt r])"
          using retry_classification_throws[OF \<open>call_provider v adapter r = Inl e\<close> budget Inl] .
        with Inl \<open>call_provider v adapter r = Inl e\<close> show ?thesis
          by (intro exI[of _ r]) auto
      next
        case (Inr is_retryable)
        show ?thesis
        proof (cases is_retryable)
          case False
          with Inr have "callLLMWithRetry v adapter r = (call_provider v adapter r, [Attempt r])"
            using retry_stops[OF \<open>call_provider v adapter r = Inl e\<close>]
              \<open>call_provider v adapter r = Inl e\<close> by simp
          then show ?thesis by (intro exI[of _ r]) auto
        next
          case True
          with Inr have retry: "isRetryableError e = Inr True" by simp
          from "1.IH"[OF \<open>call_provider v adapter r = Inl e\<close> budget Inr True]
          obtain m where m: "m \<ge> r + 1"
            "\<forall>k. r + 1 \<le> k \<and> k < m \<longrightarrow>
               int k < maxRetries v \<and>
               (\<exists>e'. call_provider v adapter k = Inl e' \<and> isRetryableError e' = Inr True)"
            "snd (callLLMWithRetry v adapter m) = [Attempt m]"
            "fst (callLLMWithRetry v adapter m) = call_provider v adapter m \<or>
             (\<exists>e t. call_provider v adapter m = Inl e \<and> isRetryableError e = Inl t \<and>
                    fst (callLLMWithRetry v adapter m) = Inl t)"
            by blast
          have "\<forall>k. r \<le> k \<and> k < m \<longrightarrow>
               int k < maxRetries v \<and>
               (\<exists>e'. call_provider v adapter k = Inl e' \<and> isRetryableError e' = Inr True)"
          proof (intro allI impI)
            fix k assume k: "r \<le> k \<and> k < m"
            show "int k < maxRetries v \<and>
               (\<exists>e'. call_provider v adapter k = Inl e' \<and> isRetryableError e' = Inr True)"
            proof (cases "k = r")
              case True
              with \<open>call_provider v adapter r = Inl e\<close> budget retry show ?thesis by auto
            next
              case False
              with k have "r + 1 \<le> k \<and> k < m" by simp
              with m(2) show ?thesis by blast
            qed
          qed
          with m show ?thesis by (intro exI[of _ m]) auto
        qed
      qed
    qed
  qed
qed

lemma example_verifier_simps:
  "maxRetries example_verifier = 3" "supported example_verifier"
  "cfg_name (providerConfig example_verifier) = ''openai''"
  "defaultModel example_verifier = ''gpt-4o-mini''"
  by (simp_all add: example_verifier_def supported_def openai_config_def configs_def)

lemma http_error_simps:
  "e_message (http_error s m) = Some (JStr m)" "e_status (http_error s m) = Some (JNum s)"
  "e_code (http_error s m) = None" "\<not> has_network_code (http_error s m)"
  "e_constructor (http_error s m) = Some ''APIError''"
  by (simp_all add: http_error_def has_network_code_def)

lemma call_provider_supported: "supported v \<Longrightarrow> call_provider v adapter k = adapter k"
  by (auto simp: call_provider_def supported_def)

lemma status_500_retryable:
  "e_status e = Some (JNum 500) \<Longrightarrow> isRetryableError (Thrown e) = Inr True"
  by (simp add: isRetryableError_def has_status_def truthy_opt_def status_retryable_def
      retryableStatuses_def)

lemma status_4xx_not_retryable:
  "e_status e = Some (JNum s) \<Longrightarrow> s \<in> {400, 401, 403, 404} \<Longrightarrow> \<not> has_network_code e \<Longrightarrow>
   isRetryableError (Thrown e) = Inr False"
  by (auto simp: isRetryableError_def has_status_def truthy_opt_def status_retryable_def
      retryableStatuses_def)

lemma retry_trace_3:
  "retry_trace 3 = [Attempt 0, Sleep 1000, Attempt 1, Sleep 2000, Attempt 2, Sleep 4000, Attempt 3]"
  by code_simp

lemma retry_terminal:
  assumes steps: "\<forall>k<m. int k < maxRetries v \<and>
             (\<exists>e'. call_provider v adapter k = Inl e' \<and> isRetryableError e' = Inr True)"
    and last: "call_provider v adapter m = Inl e"
    and stop: "isRetryableError e = Inr False \<or> maxRetries v \<le> int m"
  shows "callLLMWithRetry v adapter 0 = (Inl e, retry_trace m)"
proof -
  have "callLLMWithRetry v adapter 0 =
           (fst (callLLMWithRetry v adapter m),
            concat (map (\<lambda>k. [Attempt k, Sleep (2 ^ k * 1000)]) [0 ..< m]) @
            snd (callLLMWithRetry v adapter m))"
    using steps by (intro retry_unroll) auto
  then show ?thesis
    by (simp add: retry_stops[OF last stop] retry_trace_def)
qed

lemma verify_of_failure:
  "fst (callLLMWithRetry v adapter 0) = Inl e \<Longrightarrow>
   verify JSON_parse v adapter elapsed input options = handleVerificationError v e input options"
  by (simp add: verify_def verify_try_def)

text \<open>
  What \<open>handleVerificationError\<close> returns for an error object that has a constructor and a
  message that is a string, when its classification returns.
\<close>

lemma message_includes_any_string:
  "message_includes_any (Some (JStr m)) ps = Inr (list_ex (str_includes m) ps)"
  by (induction ps) (auto simp: message_includes_def)

lemma message_includes_any_absent: "message_includes_any None ps = Inr False"
  by (induction ps) (auto simp: message_includes_def)

lemma isRetryableError_string_value:
  "e_message e = Some (JStr m) \<Longrightarrow>
   isRetryableError (Thrown e) =
     Inr (has_network_code e \<or>
          (if has_status e then status_retryable e
           else list_ex (str_includes m) [''rate limit'', ''too many requests'', ''quota exceeded''] \<or>
                list_ex (str_includes m) [''timeout'', ''timed out'']))"
  by (auto simp: isRetryableError_def message_includes_any_string
      simp del: message_includes_any.simps)

lemma isRetryableError_string_message:
  "e_message e = Some (JStr m) \<Longrightarrow> \<exists>b. isRetryableError (Thrown e) = Inr b"
  by (simp only: isRetryableError_string_value) blast

lemma handleVerificationError_message:
  assumes "e_message e = Some (JStr m)" and "e_constructor e = Some c"
  shows "\<exists>r. handleVerificationError v (Thrown e) input options = Inr r \<and>
             \<not> isValid r \<and> confidence r = 0 \<and>
             reason r = Val (JStr (''Verification failed: '' @ m)) \<and>
             res_error r = Val (JStr m) \<and> categories r = [] \<and>
             latency (metrics r) = 0 \<and> inputTokens (metrics r) = 0 \<and>
             outputTokens (metrics r) = 0 \<and> totalTokens (metrics r) = 0 \<and>
             cost (metrics r) = 0"
proof -
  obtain b where "isRetryableError (Thrown e) = Inr b"
    using isRetryableError_string_message[OF assms(1)] by blast
  then show ?thesis
    using assms by (simp add: handleVerificationError_def template_def of_optional_def)
qed

text \<open>Whatever \<open>handleVerificationError\<close> returns is an error result without categories.\<close>

lemma handleVerificationError_result:
  "handleVerificationError v error input options = Inr r \<Longrightarrow>
   \<not> isValid r \<and> confidence r = 0 \<and> categories r = [] \<and>
   latency (metrics r) = 0 \<and> inputTokens (metrics r) = 0 \<and> outputTokens (metrics r) = 0 \<and>
   totalTokens (metrics r) = 0 \<and> cost (metrics r) = 0"
  by (auto simp: handleVerificationError_def split: thrown.splits sum.splits option.splits)





subsection \<open>Provider failures and the bounds of the retry loop\<close>

text \<open>
  C1. The claim fails on the code for a provider call that rejects with \<open>undefined\<close> or
  \<open>null\<close>: \<open>isRetryableError\<close> answers \<open>false\<close> for it, so the failure is terminal after
  one attempt, and the \<open>catch\<close> block of \<open>verify\<close> then reads \<open>error.message\<close> inside
  \<open>handleVerificationError\<close>, which throws a \<open>TypeError\<close> that leaves \<open>verify\<close>: the promise
  is rejected where the claim has a result. For a thrown object without \<open>message\<close> (here
  one with the status 401 only) \<open>verify\<close> returns a result, but its \<open>error\<close> field is
  \<open>undefined\<close> and its reason is \<open>Verification failed: undefined\<close>, where the claim has
  the error field set and the error message in the reason.
\<close>

theorem verify_rejects_nullish_failure:
  "snd (callLLMWithRetry example_verifier (\<lambda>k. Inl ThrownUndefined) 0) = [Attempt 0] \<and>
   (\<exists>text. verify JSON_parse example_verifier (\<lambda>k. Inl ThrownUndefined) elapsed input options =
             Inl (type_error text)) \<and>
   (\<exists>text. verify JSON_parse example_verifier (\<lambda>k. Inl ThrownNull) elapsed input options =
             Inl (type_error text)) \<and>
   (\<exists>r. verify JSON_parse example_verifier
           (\<lambda>k. Inl (Thrown \<lparr>e_constructor = Some ''Object'', e_code = None,
                               e_status = Some (JNum 401), e_message = None\<rparr>))
           elapsed input options = Inr r \<and>
        res_error r = Undefined \<and>
        reason r = Val (JStr ''Verification failed: undefined''))"
proof -
  have undef: "callLLMWithRetry example_verifier (\<lambda>k. Inl ThrownUndefined) 0 =
      (Inl ThrownUndefined, [Attempt 0])"
    by (rule retry_stops)
      (simp_all add: call_provider_supported example_verifier_simps isRetryableError_def)
  have null: "callLLMWithRetry example_verifier (\<lambda>k. Inl ThrownNull) 0 =
      (Inl ThrownNull, [Attempt 0])"
    by (rule retry_stops)
      (simp_all add: call_provider_supported example_verifier_simps isRetryableError_def)
  let ?e = "\<lparr>e_constructor = Some ''Object'', e_code = None,
             e_status = Some (JNum 401), e_message = None\<rparr>"
  have stop: "isRetryableError (Thrown ?e) = Inr False"
    by (rule status_4xx_not_retryable[of _ 401]) (simp_all add: has_network_code_def)
  have obj: "callLLMWithRetry example_verifier (\<lambda>k. Inl (Thrown ?e)) 0 =
      (Inl (Thrown ?e), [Attempt 0])"
    by (rule retry_stops) (simp_all add: call_provider_supported example_verifier_simps stop)
  have a: "\<exists>text. verify JSON_parse example_verifier (\<lambda>k. Inl ThrownUndefined) elapsed input
      options = Inl (type_error text)"
    using undef by (auto simp: verify_of_failure handleVerificationError_def)
  have b: "\<exists>text. verify JSON_parse example_verifier (\<lambda>k. Inl ThrownNull) elapsed input
      options = Inl (type_error text)"
    using null by (auto simp: verify_of_failure handleVerificationError_def)
  have c: "\<exists>r. verify JSON_parse example_verifier (\<lambda>k. Inl (Thrown ?e)) elapsed input options =
        Inr r \<and> res_error r = Undefined \<and> reason r = Val (JStr ''Verification failed: undefined'')"
    using obj
    by (simp add: verify_of_failure handleVerificationError_def template_def stop of_optional_def)
  from undef a b c show ?thesis by simp
qed

text \<open>
  C5. The retry loop makes the attempts \<open>0\<close> to \<open>m\<close> for some \<open>m\<close> that is at most
  \<open>maxRetries\<close>; each attempt before the last failed with an error classified as retryable
  and is followed by a sleep of \<open>1000 * 2 ^ k\<close> milliseconds; the outcome is that of the
  last attempt, unless the classification of its error throws, and then it is what the
  classification threw. With \<open>maxRetries = 3\<close>, an adapter that always fails with status
  500 is attempted exactly 4 times, with sleeps of 1, 2 and 4 seconds, and \<open>verify\<close> ends
  as \<open>handleVerificationError\<close> does on the last error: with an error result carrying the
  message when the error has a constructor and a string as message. An adapter that fails
  with status 401 is attempted exactly once.
\<close>

theorem callLLMWithRetry_bounded_backoff:
  "(\<exists>m. snd (callLLMWithRetry v adapter 0) = retry_trace m \<and>
        int m \<le> max 0 (maxRetries v) \<and>
        (\<forall>k<m. \<exists>e. call_provider v adapter k = Inl e \<and> isRetryableError e = Inr True) \<and>
        (fst (callLLMWithRetry v adapter 0) = call_provider v adapter m \<or>
         (\<exists>e t. call_provider v adapter m = Inl e \<and> isRetryableError e = Inl t \<and>
                fst (callLLMWithRetry v adapter 0) = Inl t))) \<and>
   (supported v \<and> maxRetries v = 3 \<and>
    (\<forall>k. \<exists>e. adapter k = Inl (Thrown e) \<and> e_status e = Some (JNum 500)) \<longrightarrow>
      snd (callLLMWithRetry v adapter 0) =
        [Attempt 0, Sleep 1000, Attempt 1, Sleep 2000, Attempt 2, Sleep 4000, Attempt 3] \<and>
      (\<exists>e. adapter 3 = Inl (Thrown e) \<and>
           verify JSON_parse v adapter elapsed input options =
             handleVerificationError v (Thrown e) input options \<and>
           (\<forall>text c. e_message e = Some (JStr text) \<and> e_constructor e = Some c \<longrightarrow>
              (\<exists>r. verify JSON_parse v adapter elapsed input options = Inr r \<and>
                   \<not> isValid r \<and> confidence r = 0 \<and> res_error r = Val (JStr text))))) \<and>
   (supported v \<and>
    (\<exists>e. adapter 0 = Inl (Thrown e) \<and> e_status e = Some (JNum 401) \<and> \<not> has_network_code e) \<longrightarrow>
      snd (callLLMWithRetry v adapter 0) = [Attempt 0] \<and>
      (\<exists>e. adapter 0 = Inl (Thrown e) \<and>
           verify JSON_parse v adapter elapsed input options =
             handleVerificationError v (Thrown e) input options \<and>
           (\<forall>text c. e_message e = Some (JStr text) \<and> e_constructor e = Some c \<longrightarrow>
              (\<exists>r. verify JSON_parse v adapter elapsed input options = Inr r \<and>
                   \<not> isValid r \<and> confidence r = 0 \<and> res_error r = Val (JStr text)))))"
proof -
  obtain m where m:
    "\<forall>k. 0 \<le> k \<and> k < m \<longrightarrow> int k < maxRetries v \<and>
       (\<exists>e'. call_provider v adapter k = Inl e' \<and> isRetryableError e' = Inr True)"
    "snd (callLLMWithRetry v adapter m) = [Attempt m]"
    "fst (callLLMWithRetry v adapter m) = call_provider v adapter m \<or>
     (\<exists>e t. call_provider v adapter m = Inl e \<and> isRetryableError e = Inl t \<and>
            fst (callLLMWithRetry v adapter m) = Inl t)"
    using retry_shape[of 0 v adapter] by blast
  have run: "callLLMWithRetry v adapter 0 = (fst (callLLMWithRetry v adapter m), retry_trace m)"
    using retry_unroll[of 0 m v adapter] m by (simp add: retry_trace_def)
  have "int m \<le> max 0 (maxRetries v)"
  proof (cases m)
    case 0
    then show ?thesis by simp
  next
    case (Suc j)
    with m(1) have "int j < maxRetries v" by simp
    with Suc show ?thesis by simp
  qed
  with run m(1) m(3)
  have general: "\<exists>m. snd (callLLMWithRetry v adapter 0) = retry_trace m \<and>
        int m \<le> max 0 (maxRetries v) \<and>
        (\<forall>k<m. \<exists>e. call_provider v adapter k = Inl e \<and> isRetryableError e = Inr True) \<and>
        (fst (callLLMWithRetry v adapter 0) = call_provider v adapter m \<or>
         (\<exists>e t. call_provider v adapter m = Inl e \<and> isRetryableError e = Inl t \<and>
                fst (callLLMWithRetry v adapter 0) = Inl t))"
    by (intro exI[of _ m]) auto
  have result: "\<forall>text c. e_message e = Some (JStr text) \<and> e_constructor e = Some c \<longrightarrow>
              (\<exists>r. verify JSON_parse v adapter elapsed input options = Inr r \<and>
                   \<not> isValid r \<and> confidence r = 0 \<and> res_error r = Val (JStr text))"
    if "verify JSON_parse v adapter elapsed input options =
          handleVerificationError v (Thrown e) input options" for e
    using that handleVerificationError_message[of e _ _ v input options] by metis
  have always_500: "snd (callLLMWithRetry v adapter 0) =
        [Attempt 0, Sleep 1000, Attempt 1, Sleep 2000, Attempt 2, Sleep 4000, Attempt 3] \<and>
      (\<exists>e. adapter 3 = Inl (Thrown e) \<and>
           verify JSON_parse v adapter elapsed input options =
             handleVerificationError v (Thrown e) input options \<and>
           (\<forall>text c. e_message e = Some (JStr text) \<and> e_constructor e = Some c \<longrightarrow>
              (\<exists>r. verify JSON_parse v adapter elapsed input options = Inr r \<and>
                   \<not> isValid r \<and> confidence r = 0 \<and> res_error r = Val (JStr text))))"
    if a: "supported v \<and> maxRetries v = 3 \<and>
           (\<forall>k. \<exists>e. adapter k = Inl (Thrown e) \<and> e_status e = Some (JNum 500))"
  proof -
    from a obtain e where e: "adapter 3 = Inl (Thrown e)" "e_status e = Some (JNum 500)" by blast
    have "callLLMWithRetry v adapter 0 = (Inl (Thrown e), retry_trace 3)"
    proof (rule retry_terminal)
      show "\<forall>k<3. int k < maxRetries v \<and>
         (\<exists>e'. call_provider v adapter k = Inl e' \<and> isRetryableError e' = Inr True)"
      proof (intro allI impI)
        fix k :: nat assume "k < 3"
        from a obtain e' where "adapter k = Inl (Thrown e')" "e_status e' = Some (JNum 500)"
          by blast
        with a \<open>k < 3\<close> show "int k < maxRetries v \<and>
           (\<exists>e'. call_provider v adapter k = Inl e' \<and> isRetryableError e' = Inr True)"
          by (auto simp: call_provider_supported status_500_retryable)
      qed
      show "call_provider v adapter 3 = Inl (Thrown e)"
        using a e by (simp add: call_provider_supported)
      show "isRetryableError (Thrown e) = Inr False \<or> maxRetries v \<le> int 3" using a by simp
    qed
    then have "snd (callLLMWithRetry v adapter 0) =
        [Attempt 0, Sleep 1000, Attempt 1, Sleep 2000, Attempt 2, Sleep 4000, Attempt 3] \<and>
        verify JSON_parse v adapter elapsed input options =
             handleVerificationError v (Thrown e) input options"
      by (simp add: retry_trace_3 verify_of_failure)
    with e(1) result[of e] show ?thesis by blast
  qed
  have once_401: "snd (callLLMWithRetry v adapter 0) = [Attempt 0] \<and>
      (\<exists>e. adapter 0 = Inl (Thrown e) \<and>
           verify JSON_parse v adapter elapsed input options =
             handleVerificationError v (Thrown e) input options \<and>
           (\<forall>text c. e_message e = Some (JStr text) \<and> e_constructor e = Some c \<longrightarrow>
              (\<exists>r. verify JSON_parse v adapter elapsed input options = Inr r \<and>
                   \<not> isValid r \<and> confidence r = 0 \<and> res_error r = Val (JStr text))))"
    if a: "supported v \<and>
           (\<exists>e. adapter 0 = Inl (Thrown e) \<and> e_status e = Some (JNum 401) \<and> \<not> has_network_code e)"
  proof -
    from a obtain e where e: "adapter 0 = Inl (Thrown e)" "e_status e = Some (JNum 401)"
        "\<not> has_network_code e"
      by blast
    have "callLLMWithRetry v adapter 0 = (Inl (Thrown e), [Attempt 0])"
    proof (rule retry_stops)
      show "call_provider v adapter 0 = Inl (Thrown e)"
        using a e by (simp add: call_provider_supported)
      show "isRetryableError (Thrown e) = Inr False \<or> maxRetries v \<le> int 0"
        using status_4xx_not_retryable[OF e(2) _ e(3)] by simp
    qed
    then have "snd (callLLMWithRetry v adapter 0) = [Attempt 0] \<and>
        verify JSON_parse v adapter elapsed input options =
             handleVerificationError v (Thrown e) input options"
      by (simp add: verify_of_failure)
    with e(1) result[of e] show ?thesis by blast
  qed
  from general always_500 once_401 show ?thesis by blast
qed

theorem callLLMWithRetry_bounded_backoff_witness:
  "snd (callLLMWithRetry example_verifier
          (\<lambda>k. Inl (Thrown (http_error 500 ''Internal Server Error''))) 0) =
     [Attempt 0, Sleep 1000, Attempt 1, Sleep 2000, Attempt 2, Sleep 4000, Attempt 3] \<and>
   (\<exists>r. verify JSON_parse_ref example_verifier
           (\<lambda>k. Inl (Thrown (http_error 500 ''Internal Server Error''))) 25 ''some text''
           example_options = Inr r \<and>
        \<not> isValid r \<and> confidence r = 0 \<and> res_error r = Val (JStr ''Internal Server Error'')) \<and>
   snd (callLLMWithRetry example_verifier (\<lambda>k. Inl (Thrown (http_error 401 ''Unauthorized''))) 0) =
     [Attempt 0]"
proof -
  let ?e = "http_error 500 ''Internal Server Error''"
  have hyp: "supported example_verifier \<and> maxRetries example_verifier = 3 \<and>
      (\<forall>k. \<exists>e. (\<lambda>k. Inl (Thrown ?e)) k = Inl (Thrown e) \<and> e_status e = Some (JNum 500))"
    by (simp add: example_verifier_simps http_error_simps)
  from callLLMWithRetry_bounded_backoff[where v = example_verifier
        and adapter = "\<lambda>k. Inl (Thrown ?e)"
        and JSON_parse = JSON_parse_ref and elapsed = 25 and input = "''some text''"
        and options = example_options, THEN conjunct2, THEN conjunct1, rule_format, OF hyp]
  obtain e where e: "snd (callLLMWithRetry example_verifier (\<lambda>k. Inl (Thrown ?e)) 0) =
        [Attempt 0, Sleep 1000, Attempt 1, Sleep 2000, Attempt 2, Sleep 4000, Attempt 3]"
      "Inl (Thrown ?e) = (Inl (Thrown e) :: thrown + LLMResponse)"
      "\<forall>text c. e_message e = Some (JStr text) \<and> e_constructor e = Some c \<longrightarrow>
         (\<exists>r. verify JSON_parse_ref example_verifier (\<lambda>k. Inl (Thrown ?e)) 25 ''some text''
                 example_options = Inr r \<and>
              \<not> isValid r \<and> confidence r = 0 \<and> res_error r = Val (JStr text))"
    by blast
  from e(2) have "e = ?e" by simp
  with e(3) have a: "\<exists>r. verify JSON_parse_ref example_verifier (\<lambda>k. Inl (Thrown ?e)) 25
      ''some text'' example_options = Inr r \<and>
      \<not> isValid r \<and> confidence r = 0 \<and> res_error r = Val (JStr ''Internal Server Error'')"
    by (simp add: http_error_simps)
  have b: "snd (callLLMWithRetry example_verifier
      (\<lambda>k. Inl (Thrown (http_error 401 ''Unauthorized''))) 0) = [Attempt 0]"
    using callLLMWithRetry_bounded_backoff[where v = example_verifier
        and adapter = "\<lambda>k. Inl (Thrown (http_error 401 ''Unauthorized''))"]
    by (simp add: example_verifier_simps http_error_simps)
  from e(1) a b show ?thesis by simp
qed

subsection \<open>Retry classification\<close>

lemma has_network_code_iff:
  "has_network_code e \<longleftrightarrow> (\<exists>c\<in>set networkErrors. e_code e = Some (JStr c))"
  by (auto simp: has_network_code_def split: option.splits json.splits)

lemma status_retryable_iff:
  "status_retryable e \<longleftrightarrow> (\<exists>s\<in>{408, 429, 500, 502, 503, 504}. e_status e = Some (JNum s))"
  by (auto simp: status_retryable_def retryableStatuses_def split: option.splits json.splits)

lemma bex_five: "(\<exists>w\<in>{a, b, c, d, e}. P w) \<longleftrightarrow> P a \<or> P b \<or> P c \<or> P d \<or> P e"
  by auto

lemma message_phrase_iff:
  "list_ex (str_includes m) [''rate limit'', ''too many requests'', ''quota exceeded''] \<or>
   list_ex (str_includes m) [''timeout'', ''timed out''] \<longleftrightarrow>
   (\<exists>w\<in>{''rate limit'', ''too many requests'', ''quota exceeded'', ''timeout'', ''timed out''}.
      \<exists>p q. m = p @ w @ q)"
  unfolding list_ex_Cons_iff list_ex_Nil_iff str_includes_iff bex_five
  by (simp only: disj_assoc simp_thms)

text \<open>
  C6, as the claim states it, fails twice. An error with status 403 whose message contains
  \<open>rate limit\<close> is classified as not retryable, because a status that is present decides
  alone. And the function is no total predicate: for an error whose message is the number
  42, and which has neither a transport code nor a status, it throws instead of returning
  a boolean.
\<close>

theorem isRetryableError_403_rate_limit_counterexample:
  "str_includes ''rate limit exceeded'' ''rate limit'' \<and>
   isRetryableError
     (Thrown \<lparr>e_constructor = Some ''APIError'', e_code = None, e_status = Some (JNum 403),
              e_message = Some (JStr ''rate limit exceeded'')\<rparr>) = Inr False \<and>
   isl (isRetryableError
     (Thrown \<lparr>e_constructor = Some ''Error'', e_code = None, e_status = None,
              e_message = Some (JNum 42)\<rparr>))"
  by (simp add: isRetryableError_def has_network_code_def has_status_def truthy_opt_def
      status_retryable_def retryableStatuses_def message_includes_def)

text \<open>
  C6, amended. \<open>isRetryableError\<close> returns \<open>false\<close> for \<open>undefined\<close> and \<open>null\<close>. For an
  error object it returns \<open>true\<close> when the code is one of the six transport codes.
  Otherwise, when a truthy status is present, it returns \<open>true\<close> exactly when the status
  is one of 408, 429, 500, 502, 503, 504, whatever the message is: with a status of 400,
  401, 403 or 404 the error is not retryable. Otherwise, when the message is absent, it
  returns \<open>false\<close>, and when the message is a string, it returns \<open>true\<close> exactly when the
  message contains \<open>rate limit\<close>, \<open>too many requests\<close>, \<open>quota exceeded\<close>, \<open>timeout\<close> or
  \<open>timed out\<close>.
\<close>

theorem isRetryableError_classification:
  "isRetryableError ThrownUndefined = Inr False \<and>
   isRetryableError ThrownNull = Inr False \<and>
   ((\<exists>c\<in>set networkErrors. e_code e = Some (JStr c)) \<longrightarrow>
      isRetryableError (Thrown e) = Inr True) \<and>
   (\<not> (\<exists>c\<in>set networkErrors. e_code e = Some (JStr c)) \<and> truthy_opt (e_status e) \<longrightarrow>
      isRetryableError (Thrown e) =
        Inr (\<exists>s\<in>{408, 429, 500, 502, 503, 504}. e_status e = Some (JNum s))) \<and>
   (\<not> (\<exists>c\<in>set networkErrors. e_code e = Some (JStr c)) \<and>
    (\<exists>s\<in>{400, 401, 403, 404}. e_status e = Some (JNum s)) \<longrightarrow>
      isRetryableError (Thrown e) = Inr False) \<and>
   (\<not> (\<exists>c\<in>set networkErrors. e_code e = Some (JStr c)) \<and> \<not> truthy_opt (e_status e) \<and>
    e_message e = None \<longrightarrow>
      isRetryableError (Thrown e) = Inr False) \<and>
   (\<not> (\<exists>c\<in>set networkErrors. e_code e = Some (JStr c)) \<and> \<not> truthy_opt (e_status e) \<and>
    e_message e = Some (JStr m) \<longrightarrow>
      isRetryableError (Thrown e) =
        Inr (\<exists>w\<in>{''rate limit'', ''too many requests'', ''quota exceeded'', ''timeout'',
                  ''timed out''}. \<exists>p q. m = p @ w @ q))"
proof -
  have nullish: "isRetryableError ThrownUndefined = Inr False"
      "isRetryableError ThrownNull = Inr False"
    by (simp_all add: isRetryableError_def)
  have code: "isRetryableError (Thrown e) = Inr True" if "has_network_code e"
    using that by (simp add: isRetryableError_def)
  have status: "isRetryableError (Thrown e) = Inr (status_retryable e)"
    if "\<not> has_network_code e \<and> truthy_opt (e_status e)"
    using that by (simp add: isRetryableError_def has_status_def)
  have client: "isRetryableError (Thrown e) = Inr False"
    if "\<not> has_network_code e \<and> (\<exists>s\<in>{400, 401, 403, 404}. e_status e = Some (JNum s))"
    using that status_4xx_not_retryable[of e] by blast
  have absent: "isRetryableError (Thrown e) = Inr False"
    if "\<not> has_network_code e \<and> \<not> truthy_opt (e_status e) \<and> e_message e = None"
    using that
    by (simp add: isRetryableError_def has_status_def message_includes_any_absent
        del: message_includes_any.simps)
  have message: "isRetryableError (Thrown e) =
        Inr (\<exists>w\<in>{''rate limit'', ''too many requests'', ''quota exceeded'', ''timeout'',
                  ''timed out''}. \<exists>p q. m = p @ w @ q)"
    if h: "\<not> has_network_code e \<and> \<not> truthy_opt (e_status e) \<and> e_message e = Some (JStr m)"
  proof -
    from h have "isRetryableError (Thrown e) =
        Inr (list_ex (str_includes m) [''rate limit'', ''too many requests'', ''quota exceeded''] \<or>
             list_ex (str_includes m) [''timeout'', ''timed out''])"
      by (simp only: isRetryableError_string_value has_status_def simp_thms if_False)
    then show ?thesis by (simp only: message_phrase_iff)
  qed
  from nullish code status client absent message show ?thesis
    unfolding has_network_code_iff status_retryable_iff by blast
qed

theorem isRetryableError_classification_witness:
  "isRetryableError
     (Thrown \<lparr>e_constructor = Some ''APIError'', e_code = None, e_status = Some (JNum 404),
              e_message = Some (JStr ''request timed out'')\<rparr>) = Inr False \<and>
   isRetryableError
     (Thrown \<lparr>e_constructor = Some ''APIError'', e_code = Some (JStr ''ETIMEDOUT''),
              e_status = Some (JNum 404), e_message = None\<rparr>) = Inr True \<and>
   isRetryableError
     (Thrown \<lparr>e_constructor = Some ''Error'', e_code = None, e_status = None,
              e_message = Some (JStr ''request timed out'')\<rparr>) = Inr True"
proof -
  have a: "isRetryableError
     (Thrown \<lparr>e_constructor = Some ''APIError'', e_code = None, e_status = Some (JNum 404),
              e_message = Some (JStr ''request timed out'')\<rparr>) = Inr False"
    using isRetryableError_classification
      [of "\<lparr>e_constructor = Some ''APIError'', e_code = None, e_status = Some (JNum 404),
            e_message = Some (JStr ''request timed out'')\<rparr>"]
    by simp
  have b: "isRetryableError
     (Thrown \<lparr>e_constructor = Some ''APIError'', e_code = Some (JStr ''ETIMEDOUT''),
              e_status = Some (JNum 404), e_message = None\<rparr>) = Inr True"
    using isRetryableError_classification
      [of "\<lparr>e_constructor = Some ''APIError'', e_code = Some (JStr ''ETIMEDOUT''),
            e_status = Some (JNum 404), e_message = None\<rparr>"]
    by (simp add: networkErrors_def)
  have "''request timed out'' = ''request '' @ ''timed out'' @ []" by simp
  then have "\<exists>p q. ''request timed out'' = p @ ''timed out'' @ q" by (intro exI)
  then have ex: "\<exists>w\<in>{''rate limit'', ''too many requests'', ''quota exceeded'', ''timeout'',
      ''timed out''}. \<exists>p q. ''request timed out'' = p @ w @ q"
    by (simp only: bex_five simp_thms)
  have c: "isRetryableError
     (Thrown \<lparr>e_constructor = Some ''Error'', e_code = None, e_status = None,
              e_message = Some (JStr ''request timed out'')\<rparr>) = Inr True"
    using isRetryableError_classification
      [of "\<lparr>e_constructor = Some ''Error'', e_code = None, e_status = None,
            e_message = Some (JStr ''request timed out'')\<rparr>" "''request timed out''"] ex
    by (simp add: truthy_opt_def)
  from a b c show ?thesis by simp
qed

subsection \<open>Construction with an unsupported provider\<close>

lemma map_of_configs_unsupported:
  "providerName \<notin> {''openai'', ''gemini'', ''anthropic''} \<Longrightarrow> map_of (configs env) providerName = None"
  by (simp add: configs_def)


text \<open>
  The default branch of \<open>initializeClient\<close> is reached for the names of the members that
  \<open>configs\<close> inherits from \<open>Object.prototype\<close>, and only for them.
\<close>

lemma construct_inherited_name:
  "construct sdk env (Some ''constructor'') = Inl (unsupported_provider ''Object'')"
  by (simp add: construct_def initializeProvider_def initializeClient_def or_str_def
      map_of_configs_unsupported object_prototype_members_def)



subsection \<open>The free-text fallback\<close>

lemma hasPositive_iff:
  "hasPositive t \<longleftrightarrow> (\<exists>w\<in>set positiveIndicators. \<exists>p q. t = p @ w @ q)"
  by (simp add: hasPositive_def list_ex_iff str_includes_iff)

lemma hasNegative_iff:
  "hasNegative t \<longleftrightarrow> (\<exists>w\<in>set negativeIndicators. \<exists>p q. t = p @ w @ q)"
  by (simp add: hasNegative_def list_ex_iff str_includes_iff)

lemma fallback_result:
  "falls_back JSON_parse (responseText response) \<Longrightarrow>
   parseLLMResponse JSON_parse response input =
     parseUnstructuredResponse (responseText response) input"
  by (auto simp: falls_back_def parseLLMResponse_def split: option.splits)







lemma unstructured_fields:
  "isValid (parseUnstructuredResponse text input) =
     (hasPositive (toLowerCase text) \<and> \<not> hasNegative (toLowerCase text))"
  "confidence (parseUnstructuredResponse text input) = calculateConfidenceFromText text"
  "categories (parseUnstructuredResponse text input) = []"
  by (simp_all add: parseUnstructuredResponse_def Let_def)


lemma responseText_text_response: "t \<noteq> [] \<Longrightarrow> responseText (text_response t) = t"
  by (simp add: responseText_def text_response_def)




lemma toLowerCase_invalid: "toLowerCase ''invalid'' = ''invalid''"
  by code_simp

lemma not_valid_facts:
  "falls_back JSON_parse_ref ''not valid'' \<and> hasPositive (toLowerCase ''not valid'') \<and>
   \<not> hasNegative (toLowerCase ''not valid'') \<and>
   list_all (\<lambda>indicator. \<not> str_includes ''not valid'' indicator) negativeIndicators"
  by code_simp

lemma no_indicator_facts:
  "falls_back JSON_parse_ref ''nothing to report'' \<and>
   \<not> hasPositive ''nothing to report'' \<and>
   \<not> hasPositive (toLowerCase ''nothing to report'') \<and>
   falls_back JSON_parse_ref ''this is invalid'' \<and>
   hasNegative (toLowerCase ''this is invalid'')"
  by code_simp

lemma positiveIndicators_set:
  "set positiveIndicators =
     {''valid'', ''passed'', ''ok'', ''good'', ''safe'', ''appropriate'', ''acceptable''}"
  by (simp add: positiveIndicators_def)

lemma negativeIndicators_set:
  "set negativeIndicators =
     {''invalid'', ''failed'', ''bad'', ''unsafe'', ''inappropriate'', ''reject''}"
  by (simp add: negativeIndicators_def)

lemma toLowerCase_keeps_invalid:
  assumes "\<exists>p q. text = p @ ''invalid'' @ q"
  shows "(\<exists>p q. toLowerCase text = p @ ''valid'' @ q) \<and>
         (\<exists>p q. toLowerCase text = p @ ''invalid'' @ q)"
proof -
  from assms obtain p q where "text = p @ ''invalid'' @ q" by blast
  then have "toLowerCase text = toLowerCase p @ toLowerCase ''invalid'' @ toLowerCase q"
    by (simp add: toLowerCase_def)
  then have low: "toLowerCase text = toLowerCase p @ ''invalid'' @ toLowerCase q"
    by (simp only: toLowerCase_invalid)
  then have "toLowerCase text = (toLowerCase p @ ''in'') @ ''valid'' @ toLowerCase q"
    by simp
  then have "\<exists>p q. toLowerCase text = p @ ''valid'' @ q" by blast
  moreover from low have "\<exists>p q. toLowerCase text = p @ ''invalid'' @ q" by blast
  ultimately show ?thesis by blast
qed

text \<open>
  C10. The indicators are matched as substrings of the lower-cased text, never as whole
  words: \<open>hasPositive\<close> holds exactly when the text contains one of \<open>valid\<close>, \<open>passed\<close>,
  \<open>ok\<close>, \<open>good\<close>, \<open>safe\<close>, \<open>appropriate\<close>, \<open>acceptable\<close> anywhere, \<open>hasNegative\<close> exactly
  when it contains one of \<open>invalid\<close>, \<open>failed\<close>, \<open>bad\<close>, \<open>unsafe\<close>, \<open>inappropriate\<close>,
  \<open>reject\<close>, and on the fallback path the result is valid exactly when the lower-cased
  response text has a positive match and no negative one. So every raw text that contains
  \<open>invalid\<close> matches the positive indicator \<open>valid\<close> as well as the negative indicator
  \<open>invalid\<close>. The raw text \<open>not valid\<close> is no JSON, contains none of the negative
  indicators, and yields \<open>isValid = true\<close>; the texts \<open>nothing to report\<close>, which has no
  positive indicator, and \<open>this is invalid\<close> yield \<open>isValid = false\<close>.
\<close>

theorem indicators_match_substrings:
  "(hasPositive t \<longleftrightarrow>
      (\<exists>w\<in>{''valid'', ''passed'', ''ok'', ''good'', ''safe'', ''appropriate'', ''acceptable''}.
         \<exists>p q. t = p @ w @ q)) \<and>
   (hasNegative t \<longleftrightarrow>
      (\<exists>w\<in>{''invalid'', ''failed'', ''bad'', ''unsafe'', ''inappropriate'', ''reject''}.
         \<exists>p q. t = p @ w @ q)) \<and>
   (falls_back JSON_parse (responseText response) \<longrightarrow>
      (isValid (parseLLMResponse JSON_parse response input) \<longleftrightarrow>
         hasPositive (toLowerCase (responseText response)) \<and>
         \<not> hasNegative (toLowerCase (responseText response)))) \<and>
   ((\<exists>p q. raw = p @ ''invalid'' @ q) \<longrightarrow>
      (\<exists>p q. toLowerCase raw = p @ ''valid'' @ q) \<and>
      hasPositive (toLowerCase raw) \<and> hasNegative (toLowerCase raw)) \<and>
   falls_back JSON_parse_ref ''not valid'' \<and>
   \<not> (\<exists>w\<in>{''invalid'', ''failed'', ''bad'', ''unsafe'', ''inappropriate'', ''reject''}.
        \<exists>p q. ''not valid'' = p @ w @ q) \<and>
   isValid (parseLLMResponse JSON_parse_ref (text_response ''not valid'') input) \<and>
   \<not> hasPositive ''nothing to report'' \<and>
   \<not> isValid (parseLLMResponse JSON_parse_ref (text_response ''nothing to report'') input) \<and>
   \<not> isValid (parseLLMResponse JSON_parse_ref (text_response ''this is invalid'') input)"
proof -
  have pos: "hasPositive t \<longleftrightarrow>
      (\<exists>w\<in>{''valid'', ''passed'', ''ok'', ''good'', ''safe'', ''appropriate'', ''acceptable''}.
         \<exists>p q. t = p @ w @ q)"
    unfolding hasPositive_iff positiveIndicators_set ..
  have neg: "hasNegative t \<longleftrightarrow>
      (\<exists>w\<in>{''invalid'', ''failed'', ''bad'', ''unsafe'', ''inappropriate'', ''reject''}.
         \<exists>p q. t = p @ w @ q)" for t
    unfolding hasNegative_iff negativeIndicators_set ..
  have verdict: "falls_back JSON_parse (responseText response) \<longrightarrow>
      (isValid (parseLLMResponse JSON_parse response input) \<longleftrightarrow>
         hasPositive (toLowerCase (responseText response)) \<and>
         \<not> hasNegative (toLowerCase (responseText response)))"
  proof
    assume fb: "falls_back JSON_parse (responseText response)"
    show "isValid (parseLLMResponse JSON_parse response input) \<longleftrightarrow>
         hasPositive (toLowerCase (responseText response)) \<and>
         \<not> hasNegative (toLowerCase (responseText response))"
      unfolding fallback_result[OF fb] unstructured_fields ..
  qed
  have sub: "(\<exists>p q. raw = p @ ''invalid'' @ q) \<longrightarrow>
      (\<exists>p q. toLowerCase raw = p @ ''valid'' @ q) \<and>
      hasPositive (toLowerCase raw) \<and> hasNegative (toLowerCase raw)"
  proof
    assume h: "\<exists>p q. raw = p @ ''invalid'' @ q"
    note low = toLowerCase_keeps_invalid[OF h]
    have "''valid'' \<in> set positiveIndicators" by (simp add: positiveIndicators_def)
    with low have p: "hasPositive (toLowerCase raw)" unfolding hasPositive_iff by blast
    have "''invalid'' \<in> set negativeIndicators" by (simp add: negativeIndicators_def)
    with low have n: "hasNegative (toLowerCase raw)" unfolding hasNegative_iff by blast
    from low p n show "(\<exists>p q. toLowerCase raw = p @ ''valid'' @ q) \<and>
      hasPositive (toLowerCase raw) \<and> hasNegative (toLowerCase raw)"
      by simp
  qed
  have rt: "responseText (text_response ''not valid'') = ''not valid''"
      "responseText (text_response ''nothing to report'') = ''nothing to report''"
      "responseText (text_response ''this is invalid'') = ''this is invalid''"
    by (simp_all add: responseText_text_response)
  have fb: "falls_back JSON_parse_ref (responseText (text_response ''not valid''))"
      "falls_back JSON_parse_ref (responseText (text_response ''nothing to report''))"
      "falls_back JSON_parse_ref (responseText (text_response ''this is invalid''))"
    using not_valid_facts no_indicator_facts by (simp_all only: rt)
  have valid: "isValid (parseLLMResponse JSON_parse_ref (text_response ''not valid'') input)"
    unfolding fallback_result[OF fb(1)] unstructured_fields rt using not_valid_facts by simp
  have unmatched: "\<not> isValid (parseLLMResponse JSON_parse_ref
      (text_response ''nothing to report'') input)"
    unfolding fallback_result[OF fb(2)] unstructured_fields rt using no_indicator_facts by simp
  have invalid: "\<not> isValid (parseLLMResponse JSON_parse_ref
      (text_response ''this is invalid'') input)"
    unfolding fallback_result[OF fb(3)] unstructured_fields rt using no_indicator_facts by simp
  have "\<not> hasNegative ''not valid''"
    using not_valid_facts by (simp add: hasNegative_def list_ex_iff list_all_iff)
  then have none: "\<not> (\<exists>w\<in>{''invalid'', ''failed'', ''bad'', ''unsafe'', ''inappropriate'',
      ''reject''}. \<exists>p q. ''not valid'' = p @ w @ q)"
    unfolding neg .
  have a: "falls_back JSON_parse_ref ''not valid''" using not_valid_facts by simp
  have b: "\<not> hasPositive ''nothing to report''" using no_indicator_facts by simp
  show ?thesis
    by (intro conjI)
      (rule pos, rule neg, rule verdict, rule sub, rule a, rule none, rule valid, rule b,
       rule unmatched, rule invalid)
qed

theorem indicators_match_substrings_witness:
  "hasPositive (toLowerCase ''This is INVALID content, invalid indeed'') \<and>
   hasNegative (toLowerCase ''This is INVALID content, invalid indeed'') \<and>
   falls_back JSON_parse_ref (responseText (text_response ''this is invalid'')) \<and>
   (isValid (parseLLMResponse JSON_parse_ref (text_response ''this is invalid'') ''text'') \<longleftrightarrow>
      hasPositive (toLowerCase (responseText (text_response ''this is invalid''))) \<and>
      \<not> hasNegative (toLowerCase (responseText (text_response ''this is invalid''))))"
proof -
  have "''This is INVALID content, invalid indeed'' = ''This is INVALID content, '' @ ''invalid'' @ '' indeed''"
    by simp
  then have ex: "\<exists>p q. ''This is INVALID content, invalid indeed'' = p @ ''invalid'' @ q" by blast
  have fb: "falls_back JSON_parse_ref (responseText (text_response ''this is invalid''))"
    using no_indicator_facts by (simp add: responseText_text_response)
  note fact = indicators_match_substrings[where raw = "''This is INVALID content, invalid indeed''"
      and JSON_parse = JSON_parse_ref and response = "text_response ''this is invalid''"
      and input = "''text''"]
  from fact[THEN conjunct2, THEN conjunct2, THEN conjunct2, THEN conjunct1] ex
  have a: "hasPositive (toLowerCase ''This is INVALID content, invalid indeed'') \<and>
   hasNegative (toLowerCase ''This is INVALID content, invalid indeed'')"
    by blast
  from fact[THEN conjunct2, THEN conjunct2, THEN conjunct1] fb
  have b: "isValid (parseLLMResponse JSON_parse_ref
      (text_response ''this is invalid'') ''text'') \<longleftrightarrow>
      hasPositive (toLowerCase (responseText (text_response ''this is invalid''))) \<and>
      \<not> hasNegative (toLowerCase (responseText (text_response ''this is invalid'')))"
    by blast
  from a b fb show ?thesis by simp
qed

subsection \<open>Validation of the categories\<close>

lemma all_or_thrown_returned: "all_or_thrown (map Inr ys) = Inr ys"
  by (induction ys) simp_all

lemma all_or_thrown_Inr_D: "all_or_thrown xs = Inr ys \<Longrightarrow> xs = map Inr ys"
proof (induction xs arbitrary: ys)
  case Nil
  then show ?case by simp
next
  case (Cons x xs)
  show ?case
  proof (cases x)
    case (Inl t)
    with Cons.prems show ?thesis by simp
  next
    case (Inr y)
    show ?thesis
    proof (cases "all_or_thrown xs")
      case (Inl t)
      with Cons.prems \<open>x = Inr y\<close> show ?thesis by simp
    next
      case rest: (Inr zs)
      with Cons.prems \<open>x = Inr y\<close> have "ys = y # zs" by simp
      with Cons.IH[OF rest] \<open>x = Inr y\<close> show ?thesis by simp
    qed
  qed
qed

lemma all_or_thrown_Inr_iff: "all_or_thrown xs = Inr ys \<longleftrightarrow> xs = map Inr ys"
  using all_or_thrown_Inr_D all_or_thrown_returned by blast

lemma isl_named: "isl (case x of Inl t \<Rightarrow> Inl t | Inr c \<Rightarrow> Inr (g c)) = isl x"
  by (cases x) simp_all

lemma all_or_thrown_isl: "isl (all_or_thrown xs) \<longleftrightarrow> (\<exists>x\<in>set xs. isl x)"
proof (induction xs)
  case Nil
  then show ?case by simp
next
  case (Cons x xs)
  then show ?case by (cases x) (auto split: sum.splits)
qed

lemma category_score_isl:
  "isl (category_score v) \<longleftrightarrow> coercion_throws (case v of None \<Rightarrow> JNull | Some j \<Rightarrow> j)"
  by (auto simp: category_score_def split: option.splits json.splits)

lemma category_explanation_isl:
  "isl (category_explanation v) \<longleftrightarrow> coercion_throws (case v of None \<Rightarrow> JNull | Some j \<Rightarrow> j)"
  by (auto simp: category_explanation_def truthy_opt_def split: option.splits json.splits)

lemma validateCategory_isl:
  "isl (validateCategory cats name) \<longleftrightarrow>
   is_object (entry cats name) \<and>
   (coercion_throws (entry (entry cats name) ''score'') \<or>
    coercion_throws (entry (entry cats name) ''explanation''))"
proof (cases "get_prop cats name")
  case None
  then show ?thesis by (simp add: validateCategory_def entry_def)
next
  case (Some c)
  show ?thesis
  proof (cases "truthy c \<and> is_object c")
    case False
    then have "\<not> is_object c" by (cases c) auto
    with Some show ?thesis by (simp add: validateCategory_def entry_def)
  next
    case True
    have "isl (validateCategory cats name) \<longleftrightarrow>
        isl (category_score (get_prop c ''score'')) \<or>
        isl (category_explanation (get_prop c ''explanation''))"
      using Some True by (auto simp: validateCategory_def split: sum.splits)
    then show ?thesis
      using Some True by (simp add: category_score_isl category_explanation_isl entry_def)
  qed
qed

text \<open>The categories object that \<open>validateAndFormatResult\<close> hands to \<open>validateCategories\<close>.\<close>

lemma categories_entry:
  "entry (case get_prop j ''categories'' of
            Some c \<Rightarrow> if truthy c then c else JObj []
          | None \<Rightarrow> JObj []) name =
   entry (entry j ''categories'') name"
proof (cases "get_prop j ''categories''")
  case None
  then show ?thesis by (simp add: entry_def)
next
  case (Some c)
  then show ?thesis by (cases c) (simp_all add: entry_def)
qed

lemma validateAndFormatResult_isl:
  "isl (validateAndFormatResult j input) \<longleftrightarrow> validation_raises j"
proof -
  let ?cats = "case get_prop j ''categories'' of
                 Some c \<Rightarrow> if truthy c then c else JObj []
               | None \<Rightarrow> JObj []"
  have "isl (validateAndFormatResult j input) \<longleftrightarrow> isl (validateCategories ?cats)"
    by (simp add: validateAndFormatResult_def Let_def split: sum.splits)
  also have "\<dots> \<longleftrightarrow> (\<exists>name\<in>set validCategoryNames. isl (validateCategory ?cats name))"
    by (simp add: validateCategories_def all_or_thrown_isl isl_named)
  also have "\<dots> \<longleftrightarrow> validation_raises j"
    unfolding validation_raises_def list_ex_iff validateCategory_isl categories_entry ..
  finally show ?thesis .
qed

lemma named_categories:
  "map (\<lambda>name. case f name of Inl t \<Rightarrow> Inl t | Inr c \<Rightarrow> Inr (name, c)) names = map Inr cs \<Longrightarrow>
   map fst cs = names"
proof (induction names arbitrary: cs)
  case Nil
  then show ?case by simp
next
  case (Cons name names)
  then show ?case by (cases cs) (auto split: sum.splits)
qed

lemma validateAndFormatResult_names:
  "validateAndFormatResult j input = Inr r \<Longrightarrow> map fst (categories r) = validCategoryNames"
  by (auto simp: validateAndFormatResult_def Let_def validateCategories_def all_or_thrown_Inr_iff
      split: sum.splits dest: named_categories)

subsection \<open>Confidence and categories on every path\<close>

lemma normalizeScore_float_range:
  "normalizeScore_float f = Some c \<Longrightarrow> 0 \<le> c \<and> c \<le> 1"
  using normalizeScore_range by (cases f) (auto simp: normalizeScore_float_def)

lemma calculateConfidence_range:
  "0 \<le> calculateConfidence v \<and> calculateConfidence v \<le> 1"
proof (cases v)
  case None
  then show ?thesis by (simp add: calculateConfidence_def)
next
  case (Some j)
  show ?thesis
  proof (cases j)
    case (JNum x)
    with Some show ?thesis by (simp add: calculateConfidence_def normalizeScore_range)
  next
    case (JStr s)
    show ?thesis
    proof (cases "normalizeScore_float (parseFloat s)")
      case None
      with Some JStr show ?thesis by (simp add: calculateConfidence_def)
    next
      case (Some c)
      with \<open>v = Some j\<close> JStr normalizeScore_float_range[OF Some] show ?thesis
        by (simp add: calculateConfidence_def)
    qed
  qed (use Some in \<open>simp_all add: calculateConfidence_def\<close>)
qed

lemma calculateConfidenceFromText_range:
  "0 \<le> calculateConfidenceFromText text \<and> calculateConfidenceFromText text \<le> 1"
proof (cases "match_confidence text")
  case None
  then show ?thesis by (simp add: calculateConfidenceFromText_def Let_def)
next
  case (Some g)
  show ?thesis
  proof (cases "normalizeScore_float (parseFloat g)")
    case None
    with Some show ?thesis by (simp add: calculateConfidenceFromText_def)
  next
    case (Some c)
    with \<open>match_confidence text = Some g\<close> normalizeScore_float_range[OF Some] show ?thesis
      by (simp add: calculateConfidenceFromText_def)
  qed
qed

lemma validateAndFormatResult_confidence:
  "validateAndFormatResult j input = Inr r \<Longrightarrow> 0 \<le> confidence r \<and> confidence r \<le> 1"
  using calculateConfidence_range[of "get_prop j ''confidence''"]
  by (auto simp: validateAndFormatResult_def Let_def split: sum.splits)

lemma parseLLMResponse_confidence_range:
  "0 \<le> confidence (parseLLMResponse JSON_parse response input) \<and>
   confidence (parseLLMResponse JSON_parse response input) \<le> 1"
proof (cases "falls_back JSON_parse (responseText response)")
  case True
  then show ?thesis
    using calculateConfidenceFromText_range
    by (simp add: fallback_result unstructured_fields)
next
  case False
  then obtain j where j: "extractJSONFromText JSON_parse (responseText response) = Some j"
      "truthy j"
    by (auto simp: falls_back_def split: option.splits)
  show ?thesis
  proof (cases "validateAndFormatResult j input")
    case (Inl t)
    with j show ?thesis by (simp add: parseLLMResponse_def createErrorResult_def)
  next
    case (Inr r)
    with j validateAndFormatResult_confidence[OF Inr] show ?thesis
      by (simp add: parseLLMResponse_def)
  qed
qed

lemma structured_result:
  assumes "extracts JSON_parse (responseText response) j"
  shows "(validation_raises j \<longrightarrow>
            parseLLMResponse JSON_parse response input =
              createErrorResult ''Failed to parse verification response'' input) \<and>
         (\<not> validation_raises j \<longrightarrow>
            validateAndFormatResult j input = Inr (parseLLMResponse JSON_parse response input))"
proof (cases "validateAndFormatResult j input")
  case (Inl t)
  then have "validation_raises j" using validateAndFormatResult_isl[of j input] by simp
  with Inl assms show ?thesis by (simp add: extracts_def parseLLMResponse_def)
next
  case (Inr r)
  then have "\<not> validation_raises j" using validateAndFormatResult_isl[of j input] by simp
  with Inr assms show ?thesis by (simp add: extracts_def parseLLMResponse_def)
qed

lemma paths_exhaustive:
  "falls_back JSON_parse text \<longleftrightarrow> \<not> (\<exists>j. extracts JSON_parse text j)"
  by (auto simp: falls_back_def extracts_def split: option.splits)

lemma verify_of_response:
  "fst (callLLMWithRetry v adapter 0) = Inr response \<Longrightarrow>
   verify JSON_parse v adapter elapsed input options =
     Inr ((parseLLMResponse JSON_parse response input)
            \<lparr>metrics := calculateMetrics v response elapsed input,
             res_provider := Some (cfg_name (providerConfig v)),
             res_model := Some (or_str (o_model options) (defaultModel v))\<rparr>)"
  by (simp add: verify_def verify_try_def)

lemma extract_direct:
  "JSON_parse text = Some j \<Longrightarrow> extractJSONFromText JSON_parse text = Some j"
  by (simp add: extractJSONFromText_def)

lemma example_document_raising_facts:
  "(case JSON_parse_ref example_document_raising of
      None \<Rightarrow> False
    | Some j \<Rightarrow> truthy j \<and> validation_raises j)"
  by code_simp

lemma example_document_raising_text:
  "responseText (text_response example_document_raising) = example_document_raising"
  by (rule responseText_text_response) (simp add: example_document_raising_def)

lemma example_document_facts:
  "\<not> falls_back JSON_parse_ref example_document \<and>
   (case JSON_parse_ref example_document of
      None \<Rightarrow> False
    | Some j \<Rightarrow> matches_output_schema j \<and> explanations_given j \<and> truthy j \<and>
        \<not> validation_raises j \<and>
        doc_bool (entry j ''isValid'') \<and> doc_number (entry j ''confidence'') = 0.85 \<and>
        map_of (doc_categories j) ''bias'' =
          Some \<lparr>passed = True, score = Score 0.25, explanation = Text ''neutral'', details = None\<rparr>)"
  by code_simp

lemma example_document_text:
  "responseText (text_response example_document) = example_document"
  by (rule responseText_text_response) (simp add: example_document_def)

lemma example_returns:
  "callLLMWithRetry example_verifier (\<lambda>k. Inr response) 0 = (Inr response, [Attempt 0])"
  by (rule retry_succeeds) (simp add: call_provider_supported example_verifier_simps)

text \<open>
  C2, as the claim states it, fails: after a terminal provider failure, on the fallback
  path, and when the validation of an extracted document throws, the result has no
  category entries at all.
\<close>

theorem verify_categories_empty_counterexample:
  "(case verify JSON_parse_ref example_verifier
           (\<lambda>k. Inl (Thrown (http_error 401 ''Unauthorized''))) 25 ''some text'' example_options of
      Inl t \<Rightarrow> False
    | Inr r \<Rightarrow> ''toxicity'' \<notin> fst ` set (categories r)) \<and>
   (case verify JSON_parse_ref example_verifier (\<lambda>k. Inr (text_response ''not valid'')) 25
           ''some text'' example_options of
      Inl t \<Rightarrow> False
    | Inr r \<Rightarrow> ''toxicity'' \<notin> fst ` set (categories r)) \<and>
   (case verify JSON_parse_ref example_verifier
           (\<lambda>k. Inr (text_response example_document_raising)) 25 ''some text'' example_options of
      Inl t \<Rightarrow> False
    | Inr r \<Rightarrow> ''toxicity'' \<notin> fst ` set (categories r))"
proof -
  have stop: "isRetryableError (Thrown (http_error 401 ''Unauthorized'')) = Inr False"
    by (rule status_4xx_not_retryable[of _ 401]) (simp_all add: http_error_simps)
  have "callLLMWithRetry example_verifier (\<lambda>k. Inl (Thrown (http_error 401 ''Unauthorized''))) 0 =
      (Inl (Thrown (http_error 401 ''Unauthorized'')), [Attempt 0])"
    by (rule retry_stops) (simp_all add: call_provider_supported example_verifier_simps stop)
  moreover obtain r where "handleVerificationError example_verifier
      (Thrown (http_error 401 ''Unauthorized'')) ''some text'' example_options = Inr r"
      "categories r = []"
    using handleVerificationError_message[of "http_error 401 ''Unauthorized''"]
    by (metis http_error_simps(1,5))
  ultimately have a: "case verify JSON_parse_ref example_verifier
           (\<lambda>k. Inl (Thrown (http_error 401 ''Unauthorized''))) 25 ''some text'' example_options of
      Inl t \<Rightarrow> False
    | Inr r \<Rightarrow> ''toxicity'' \<notin> fst ` set (categories r)"
    by (simp add: verify_of_failure)
  have "falls_back JSON_parse_ref (responseText (text_response ''not valid''))"
    using not_valid_facts by (simp add: responseText_text_response)
  then have b: "case verify JSON_parse_ref example_verifier (\<lambda>k. Inr (text_response ''not valid'')) 25
           ''some text'' example_options of
      Inl t \<Rightarrow> False
    | Inr r \<Rightarrow> ''toxicity'' \<notin> fst ` set (categories r)"
    by (simp add: verify_of_response example_returns fallback_result unstructured_fields)
  obtain j where j: "JSON_parse_ref example_document_raising = Some j" "truthy j"
      "validation_raises j"
    using example_document_raising_facts by (auto split: option.splits)
  then have "extracts JSON_parse_ref (responseText (text_response example_document_raising)) j"
    by (simp add: extracts_def extract_direct example_document_raising_text)
  from structured_result[OF this] j(3)
  have "parseLLMResponse JSON_parse_ref (text_response example_document_raising) ''some text'' =
      createErrorResult ''Failed to parse verification response'' ''some text''"
    by simp
  then have c: "case verify JSON_parse_ref example_verifier
           (\<lambda>k. Inr (text_response example_document_raising)) 25 ''some text'' example_options of
      Inl t \<Rightarrow> False
    | Inr r \<Rightarrow> ''toxicity'' \<notin> fst ` set (categories r)"
    by (simp add: verify_of_response example_returns createErrorResult_def)
  from a b c show ?thesis by simp
qed

text \<open>
  C2, amended. Whenever \<open>verify\<close> returns a result, its confidence lies in \<open>[0,1]\<close>, and
  \<open>verify\<close> returns a result whenever the provider call returned a response. The response
  text either takes the fallback path or has a truthy JSON value extracted from it. When a
  value was extracted and its validation throws nothing, the categories of the result are
  exactly the seven canonical names, in their order. The categories are empty after a
  terminal provider failure, on the free-text fallback path, and when the validation of
  the extracted value throws (a category whose score or explanation cannot be converted
  to a primitive); in the last case the result is the parse-error result: not valid,
  confidence 0, the error field \<open>Failed to parse verification response\<close>.
\<close>

theorem verify_result_populated:
  "(\<forall>r. verify JSON_parse v adapter elapsed input options = Inr r \<longrightarrow>
      0 \<le> confidence r \<and> confidence r \<le> 1 \<and>
      (\<forall>e. fst (callLLMWithRetry v adapter 0) = Inl e \<longrightarrow> categories r = []) \<and>
      (\<forall>response. fst (callLLMWithRetry v adapter 0) = Inr response \<and>
         falls_back JSON_parse (responseText response) \<longrightarrow> categories r = []) \<and>
      (\<forall>response j. fst (callLLMWithRetry v adapter 0) = Inr response \<and>
         extracts JSON_parse (responseText response) j \<and> validation_raises j \<longrightarrow>
         categories r = [] \<and> \<not> isValid r \<and> confidence r = 0 \<and>
         res_error r = Val (JStr ''Failed to parse verification response'')) \<and>
      (\<forall>response j. fst (callLLMWithRetry v adapter 0) = Inr response \<and>
         extracts JSON_parse (responseText response) j \<and> \<not> validation_raises j \<longrightarrow>
         map fst (categories r) =
           [''toxicity'', ''factuality'', ''coherence'', ''relevance'', ''safety'', ''moderation'',
            ''bias''])) \<and>
   (\<forall>response. fst (callLLMWithRetry v adapter 0) = Inr response \<longrightarrow>
      (\<exists>r. verify JSON_parse v adapter elapsed input options = Inr r) \<and>
      (falls_back JSON_parse (responseText response) \<longleftrightarrow>
         \<not> (\<exists>j. extracts JSON_parse (responseText response) j)))"
proof -
  have returned: "0 \<le> confidence r \<and> confidence r \<le> 1 \<and>
      (\<forall>e. fst (callLLMWithRetry v adapter 0) = Inl e \<longrightarrow> categories r = []) \<and>
      (\<forall>response. fst (callLLMWithRetry v adapter 0) = Inr response \<and>
         falls_back JSON_parse (responseText response) \<longrightarrow> categories r = []) \<and>
      (\<forall>response j. fst (callLLMWithRetry v adapter 0) = Inr response \<and>
         extracts JSON_parse (responseText response) j \<and> validation_raises j \<longrightarrow>
         categories r = [] \<and> \<not> isValid r \<and> confidence r = 0 \<and>
         res_error r = Val (JStr ''Failed to parse verification response'')) \<and>
      (\<forall>response j. fst (callLLMWithRetry v adapter 0) = Inr response \<and>
         extracts JSON_parse (responseText response) j \<and> \<not> validation_raises j \<longrightarrow>
         map fst (categories r) =
           [''toxicity'', ''factuality'', ''coherence'', ''relevance'', ''safety'', ''moderation'',
            ''bias''])"
    if r: "verify JSON_parse v adapter elapsed input options = Inr r" for r
  proof (cases "fst (callLLMWithRetry v adapter 0)")
    case (Inl e)
    with r have "handleVerificationError v e input options = Inr r"
      by (simp add: verify_of_failure)
    from handleVerificationError_result[OF this] Inl show ?thesis by simp
  next
    case (Inr response)
    let ?p = "parseLLMResponse JSON_parse response input"
    from r Inr have fields: "confidence r = confidence ?p" "categories r = categories ?p"
        "isValid r = isValid ?p" "res_error r = res_error ?p"
      by (auto simp: verify_of_response)
    have range: "0 \<le> confidence r \<and> confidence r \<le> 1"
      using parseLLMResponse_confidence_range[of JSON_parse response input] fields by simp
    have fallback: "categories r = []" if "falls_back JSON_parse (responseText response)"
      using that fields by (simp add: fallback_result unstructured_fields)
    have raised: "categories r = [] \<and> \<not> isValid r \<and> confidence r = 0 \<and>
         res_error r = Val (JStr ''Failed to parse verification response'')"
      if "extracts JSON_parse (responseText response) j \<and> validation_raises j" for j
      using that structured_result[of JSON_parse response j input] fields
      by (simp add: createErrorResult_def)
    have validated: "map fst (categories r) =
           [''toxicity'', ''factuality'', ''coherence'', ''relevance'', ''safety'', ''moderation'',
            ''bias'']"
      if "extracts JSON_parse (responseText response) j \<and> \<not> validation_raises j" for j
      using that structured_result[of JSON_parse response j input] fields
        validateAndFormatResult_names[of j input ?p]
      by (simp add: validCategoryNames_def)
    from Inr range fallback raised validated show ?thesis by auto
  qed
  have returns: "(\<exists>r. verify JSON_parse v adapter elapsed input options = Inr r) \<and>
      (falls_back JSON_parse (responseText response) \<longleftrightarrow>
         \<not> (\<exists>j. extracts JSON_parse (responseText response) j))"
    if "fst (callLLMWithRetry v adapter 0) = Inr response" for response
    using that paths_exhaustive[of JSON_parse "responseText response"]
    by (simp add: verify_of_response)
  from returned returns show ?thesis by blast
qed

theorem verify_result_populated_witness:
  "(\<exists>r. verify JSON_parse_ref example_verifier (\<lambda>k. Inr (text_response example_document)) 25
          ''some text'' example_options = Inr r \<and>
        map fst (categories r) =
          [''toxicity'', ''factuality'', ''coherence'', ''relevance'', ''safety'', ''moderation'',
           ''bias'']) \<and>
   (\<exists>r. verify JSON_parse_ref example_verifier
          (\<lambda>k. Inr (text_response example_document_raising)) 25 ''some text'' example_options =
          Inr r \<and>
        categories r = [] \<and> confidence r = 0)"
proof -
  note fact = verify_result_populated[where JSON_parse = JSON_parse_ref and v = example_verifier
      and elapsed = 25 and input = "''some text''" and options = example_options]
  have a: "\<exists>r. verify JSON_parse_ref example_verifier (\<lambda>k. Inr (text_response example_document)) 25
          ''some text'' example_options = Inr r \<and>
        map fst (categories r) =
          [''toxicity'', ''factuality'', ''coherence'', ''relevance'', ''safety'', ''moderation'',
           ''bias'']"
  proof -
    let ?a = "\<lambda>k::nat. (Inr (text_response example_document) :: thrown + LLMResponse)"
    have run: "fst (callLLMWithRetry example_verifier ?a 0) = Inr (text_response example_document)"
      by (simp add: example_returns)
    obtain j where j: "JSON_parse_ref example_document = Some j" "truthy j"
        "\<not> validation_raises j"
      using example_document_facts by (auto split: option.splits)
    then have ex: "extracts JSON_parse_ref (responseText (text_response example_document)) j"
      by (simp add: extracts_def extract_direct example_document_text)
    from fact[where adapter = ?a, THEN conjunct2] run
    obtain r where r: "verify JSON_parse_ref example_verifier ?a 25 ''some text''
        example_options = Inr r"
      by blast
    from fact[where adapter = ?a, THEN conjunct1] r run ex j(3)
    have "map fst (categories r) =
          [''toxicity'', ''factuality'', ''coherence'', ''relevance'', ''safety'', ''moderation'',
           ''bias'']"
      by blast
    with r show ?thesis by simp
  qed
  have b: "\<exists>r. verify JSON_parse_ref example_verifier
          (\<lambda>k. Inr (text_response example_document_raising)) 25 ''some text'' example_options =
          Inr r \<and>
        categories r = [] \<and> confidence r = 0"
  proof -
    let ?a = "\<lambda>k::nat. (Inr (text_response example_document_raising) :: thrown + LLMResponse)"
    have run: "fst (callLLMWithRetry example_verifier ?a 0) =
        Inr (text_response example_document_raising)"
      by (simp add: example_returns)
    obtain j where j: "JSON_parse_ref example_document_raising = Some j" "truthy j"
        "validation_raises j"
      using example_document_raising_facts by (auto split: option.splits)
    then have ex: "extracts JSON_parse_ref
        (responseText (text_response example_document_raising)) j"
      by (simp add: extracts_def extract_direct example_document_raising_text)
    from fact[where adapter = ?a, THEN conjunct2] run
    obtain r where r: "verify JSON_parse_ref example_verifier ?a 25 ''some text''
        example_options = Inr r"
      by blast
    from fact[where adapter = ?a, THEN conjunct1] r run ex j(3)
    have "categories r = [] \<and> confidence r = 0"
      by blast
    with r show ?thesis by simp
  qed
  from a b show ?thesis by simp
qed

subsection \<open>Round trip of a schema document\<close>

lemma is_JObj_D: "is_JObj c \<Longrightarrow> \<exists>kvs. c = JObj kvs"
  by (cases c) simp_all

lemma is_JBool_D: "is_JBool v \<Longrightarrow> \<exists>b. v = Some (JBool b)"
  by (cases v rule: is_JBool.cases) simp_all

lemma is_JStr_D: "is_JStr v \<Longrightarrow> \<exists>s. v = Some (JStr s)"
  by (cases v rule: is_JStr.cases) simp_all

lemma is_unit_number_D: "is_unit_number v \<Longrightarrow> \<exists>x. v = Some (JNum x) \<and> 0 \<le> x \<and> x \<le> 1"
  by (cases v rule: is_unit_number.cases) simp_all

lemma normalizeScore_unit: "0 \<le> x \<Longrightarrow> x \<le> 1 \<Longrightarrow> normalizeScore x = x"
  by (auto simp: normalizeScore_clamp)

lemma entry_JObj: "entry c key = JObj kvs \<Longrightarrow> get_prop c key = Some (JObj kvs)"
  by (auto simp: entry_def split: option.splits)

lemma validateCategory_schema:
  assumes "schema_category (entry cats name)"
    and "doc_string (entry (entry cats name) ''explanation'') \<noteq> []"
  shows "validateCategory cats name = Inr (doc_category (entry cats name))"
proof -
  from assms(1) obtain kvs where c: "entry cats name = JObj kvs"
    using is_JObj_D by (auto simp: schema_category_def)
  then have got: "get_prop cats name = Some (JObj kvs)" by (rule entry_JObj)
  from assms(1) c obtain p where p: "map_of kvs ''passed'' = Some (JBool p)"
    using is_JBool_D[of "get_prop (JObj kvs) ''passed''"] by (auto simp: schema_category_def)
  from assms(1) c obtain x where x: "map_of kvs ''score'' = Some (JNum x)" "0 \<le> x" "x \<le> 1"
    using is_unit_number_D[of "get_prop (JObj kvs) ''score''"] by (auto simp: schema_category_def)
  from assms(1) c obtain ex where ex: "map_of kvs ''explanation'' = Some (JStr ex)"
    using is_JStr_D[of "get_prop (JObj kvs) ''explanation''"] by (auto simp: schema_category_def)
  from assms(1) c have d: "map_of kvs ''details'' = None" by (simp add: schema_category_def)
  from assms(2) c ex have "ex \<noteq> []" by (simp add: entry_def)
  then show ?thesis
    using p x ex d
    by (simp add: validateCategory_def got c doc_category_def entry_def truthy_opt_def
        category_score_def category_explanation_def array_or_def normalizeScore_unit)
qed

lemma validateCategories_schema:
  assumes "list_all (\<lambda>name. schema_category (entry cats name)) validCategoryNames"
    and "list_all (\<lambda>name. doc_string (entry (entry cats name) ''explanation'') \<noteq> [])
           validCategoryNames"
  shows "validateCategories cats =
           Inr (map (\<lambda>name. (name, doc_category (entry cats name))) validCategoryNames)"
  unfolding validateCategories_def all_or_thrown_Inr_iff map_map
  using assms by (intro map_cong refl) (auto simp: list_all_iff validateCategory_schema)

text \<open>An explanation that is the empty string is falsy and is replaced, in every category.\<close>

lemma empty_explanation_replaced:
  "category_explanation (Some (JStr [])) = Inr (Text ''Not provided'')"
  by (simp add: category_explanation_def truthy_opt_def)

text \<open>
  C7, as the claim states it, fails: a document of the schema whose \<open>toxicity\<close>
  explanation is the empty string is parsed into a result whose \<open>toxicity\<close> explanation is
  \<open>Not provided\<close>, so the categories of the result are not those of the document.
\<close>

theorem schema_round_trip_counterexample:
  "(case JSON_parse_ref example_document_empty of
      None \<Rightarrow> False
    | Some j \<Rightarrow>
        matches_output_schema j \<and>
        categories (parseLLMResponse JSON_parse_ref (text_response example_document_empty) ''text'')
          \<noteq> doc_categories j \<and>
        map_of (doc_categories j) ''toxicity'' =
          Some \<lparr>passed = True, score = Score 0.1, explanation = Text [], details = None\<rparr> \<and>
        map_of (categories
            (parseLLMResponse JSON_parse_ref (text_response example_document_empty) ''text''))
          ''toxicity'' =
          Some \<lparr>passed = True, score = Score 0.1, explanation = Text ''Not provided'',
                details = None\<rparr>)"
  by code_simp

text \<open>
  C7, amended. For every response text that \<open>JSON.parse\<close> decodes into a document of the
  output schema in which every category has an explanation that is not the empty string,
  parsing yields a result whose \<open>isValid\<close>, \<open>confidence\<close> and categories (the seven
  canonical entries with their \<open>passed\<close>, \<open>score\<close> and \<open>explanation\<close>) are exactly those
  written in the document. (An empty explanation is replaced by \<open>Not provided\<close>.)
\<close>

theorem schema_round_trip:
  assumes "JSON_parse (responseText response) = Some j"
    and "matches_output_schema j"
    and "explanations_given j"
  shows "isValid (parseLLMResponse JSON_parse response input) = doc_bool (entry j ''isValid'') \<and>
         confidence (parseLLMResponse JSON_parse response input) =
           doc_number (entry j ''confidence'') \<and>
         categories (parseLLMResponse JSON_parse response input) = doc_categories j"
proof -
  from assms(2) obtain kvs where j: "j = JObj kvs"
    using is_JObj_D by (auto simp: matches_output_schema_def)
  have direct: "extractJSONFromText JSON_parse (responseText response) = Some j"
    using assms(1) by (simp add: extractJSONFromText_def)
  then have parsed: "parseLLMResponse JSON_parse response input =
      (case validateAndFormatResult j input of
         Inr result \<Rightarrow> result
       | Inl error \<Rightarrow> createErrorResult ''Failed to parse verification response'' input)"
    using j by (simp add: parseLLMResponse_def)
  from assms(2) j obtain b where b: "map_of kvs ''isValid'' = Some (JBool b)"
    using is_JBool_D[of "get_prop (JObj kvs) ''isValid''"] by (auto simp: matches_output_schema_def)
  from assms(2) j obtain x where x: "map_of kvs ''confidence'' = Some (JNum x)" "0 \<le> x" "x \<le> 1"
    using is_unit_number_D[of "get_prop (JObj kvs) ''confidence''"]
    by (auto simp: matches_output_schema_def)
  from assms(2) j obtain cs where cs: "entry j ''categories'' = JObj cs"
    using is_JObj_D by (auto simp: matches_output_schema_def)
  then have cats: "map_of kvs ''categories'' = Some (JObj cs)"
    using entry_JObj[of j "''categories''" cs] j by simp
  have "validateCategories (JObj cs) =
           Inr (map (\<lambda>name. (name, doc_category (entry (JObj cs) name))) validCategoryNames)"
    using assms(2,3) cs
    by (intro validateCategories_schema) (simp_all add: matches_output_schema_def explanations_given_def)
  then show ?thesis
    using b x cats cs j
    by (simp add: parsed validateAndFormatResult_def Let_def truthy_opt_def entry_def
        calculateConfidence_def normalizeScore_unit doc_categories_def)
qed

theorem schema_round_trip_witness:
  "isValid (parseLLMResponse JSON_parse_ref (text_response example_document) ''text'') \<and>
   confidence (parseLLMResponse JSON_parse_ref (text_response example_document) ''text'') = 0.85 \<and>
   map_of (categories (parseLLMResponse JSON_parse_ref (text_response example_document) ''text''))
     ''bias'' =
     Some \<lparr>passed = True, score = Score 0.25, explanation = Text ''neutral'', details = None\<rparr>"
proof (cases "JSON_parse_ref example_document")
  case None
  with example_document_facts show ?thesis by simp
next
  case (Some j)
  with example_document_facts have facts: "matches_output_schema j" "explanations_given j"
    "doc_bool (entry j ''isValid'')" "doc_number (entry j ''confidence'') = 0.85"
    "map_of (doc_categories j) ''bias'' =
       Some \<lparr>passed = True, score = Score 0.25, explanation = Text ''neutral'', details = None\<rparr>"
    by simp_all
  from Some have "JSON_parse_ref (responseText (text_response example_document)) = Some j"
    by (simp add: example_document_text)
  from schema_round_trip[where JSON_parse = JSON_parse_ref
      and response = "text_response example_document" and j = j and input = "''text''",
      OF this facts(1,2)] facts(3,4,5)
  show ?thesis by simp
qed

subsection \<open>The batch coordinator\<close>

























end
